theory Spec2Isabelle
  imports Complex_Main "HOL-Library.Multiset" "HOL-Library.List_Lexorder" "HOL-Library.Char_ord"
begin

section \<open>Facelet state (src/lib/cube-solver.ts)\<close>

text \<open>
  The file src/lib/cube-solver.ts holds two versions of the module one after the other.
  The model follows the later one (from line 446 on, with all six faces wired in
  \<^verbatim>\<open>rotateAdjacentFaces\<close>); the line numbers below are the file's.

  \<^verbatim>\<open>type Color = "white" | "yellow" | "red" | "orange" | "blue" | "green"\<close>.
  A face is a \<^verbatim>\<open>Color[][]\<close> that every producer in the repository builds as three rows
  of three colours, and every index written in the source is a literal in 0..2 (or a loop
  variable below 3). The model fixes that shape in the type: a row is three colours and a
  face is three rows, so rows stay separate objects (the U and D cases replace whole
  rows) and no read is out of range.
\<close>

datatype Color = white | yellow | red | orange | blue | green

datatype Row3 = Row3 Color Color Color

datatype Grid = Grid Row3 Row3 Row3

text \<open>\<^verbatim>\<open>r[j]\<close> and \<^verbatim>\<open>r[j] = v\<close> on a row, \<^verbatim>\<open>m[i]\<close> and \<^verbatim>\<open>m[i] = r\<close> on a face.\<close>

fun col :: "Row3 \<Rightarrow> nat \<Rightarrow> Color" where
  "col (Row3 a b c) j = (if j = 0 then a else if j = 1 then b else c)"

fun setCol :: "Row3 \<Rightarrow> nat \<Rightarrow> Color \<Rightarrow> Row3" where
  "setCol (Row3 a b c) j v =
     (if j = 0 then Row3 v b c else if j = 1 then Row3 a v c else Row3 a b v)"

fun row :: "Grid \<Rightarrow> nat \<Rightarrow> Row3" where
  "row (Grid a b c) i = (if i = 0 then a else if i = 1 then b else c)"

fun setRow :: "Grid \<Rightarrow> nat \<Rightarrow> Row3 \<Rightarrow> Grid" where
  "setRow (Grid a b c) i r =
     (if i = 0 then Grid r b c else if i = 1 then Grid a r c else Grid a b r)"

text \<open>\<^verbatim>\<open>m[i][j]\<close> and \<^verbatim>\<open>m[i][j] = v\<close>.\<close>

definition cell :: "Grid \<Rightarrow> nat \<Rightarrow> nat \<Rightarrow> Color" where
  "cell m i j = col (row m i) j"

definition setCell :: "Grid \<Rightarrow> nat \<Rightarrow> nat \<Rightarrow> Color \<Rightarrow> Grid" where
  "setCell m i j v = setRow m i (setCol (row m i) j v)"

text \<open>
  \<^verbatim>\<open>interface CubeState { faces: Record<Face, Color[][]> }\<close>: the six faces, in the key
  order of the solved template (U, D, L, R, F, B). The one-field wrapper \<^verbatim>\<open>faces\<close> is
  flattened away.
\<close>

record CubeState =
  U :: Grid
  D :: Grid
  L :: Grid
  R :: Grid
  F :: Grid
  B :: Grid

type_synonym Move = string

text \<open>
  The only exception the engine can raise: reading \<^verbatim>\<open>[0]\<close> of \<^verbatim>\<open>undefined\<close> when
  \<^verbatim>\<open>state.faces[face]\<close> has no such key.
\<close>

datatype error = TypeError

definition bindE :: "error + 'a \<Rightarrow> ('a \<Rightarrow> error + 'b) \<Rightarrow> error + 'b" where
  "bindE x f = (case x of Inl e \<Rightarrow> Inl e | Inr v \<Rightarrow> f v)"

text \<open>\<^verbatim>\<open>state.faces[face]\<close> (\<open>None\<close> is \<^verbatim>\<open>undefined\<close>) and the store back of a face.\<close>

definition faceOf :: "CubeState \<Rightarrow> string \<Rightarrow> Grid option" where
  "faceOf state face =
     (if face = ''U'' then Some (U state)
      else if face = ''D'' then Some (D state)
      else if face = ''L'' then Some (L state)
      else if face = ''R'' then Some (R state)
      else if face = ''F'' then Some (F state)
      else if face = ''B'' then Some (B state)
      else None)"

definition setFace :: "CubeState \<Rightarrow> string \<Rightarrow> Grid \<Rightarrow> CubeState" where
  "setFace state face m =
     (if face = ''U'' then state\<lparr>U := m\<rparr>
      else if face = ''D'' then state\<lparr>D := m\<rparr>
      else if face = ''L'' then state\<lparr>L := m\<rparr>
      else if face = ''R'' then state\<lparr>R := m\<rparr>
      else if face = ''F'' then state\<lparr>F := m\<rparr>
      else if face = ''B'' then state\<lparr>B := m\<rparr>
      else state)"

text \<open>\<^verbatim>\<open>SOLVED_STATE\<close> and \<^verbatim>\<open>createSolvedCube\<close> (a deep copy of the template).\<close>

definition uniform :: "Color \<Rightarrow> Grid" where
  "uniform c = Grid (Row3 c c c) (Row3 c c c) (Row3 c c c)"

definition SOLVED_STATE :: CubeState where
  "SOLVED_STATE =
     \<lparr>U = uniform white, D = uniform yellow, L = uniform orange,
      R = uniform red, F = uniform green, B = uniform blue\<rparr>"

definition createSolvedCube :: CubeState where
  "createSolvedCube = SOLVED_STATE"

section \<open>Move engine\<close>

text \<open>
  \<^verbatim>\<open>rotateAdjacentFaces\<close> (lines 616-704): the switch on the face, one assignment per
  line in the order of the source. The \<^verbatim>\<open>default\<close> branch warns and changes nothing.
\<close>

definition rotateAdjacentFaces :: "CubeState \<Rightarrow> string \<Rightarrow> CubeState" where
  "rotateAdjacentFaces faces face =
     (if face = ''R'' then
        (let tempR = [cell (U faces) 0 2, cell (U faces) 1 2, cell (U faces) 2 2];
             faces = faces\<lparr>U := setCell (U faces) 0 2 (cell (F faces) 0 2)\<rparr>;
             faces = faces\<lparr>U := setCell (U faces) 1 2 (cell (F faces) 1 2)\<rparr>;
             faces = faces\<lparr>U := setCell (U faces) 2 2 (cell (F faces) 2 2)\<rparr>;
             faces = faces\<lparr>F := setCell (F faces) 0 2 (cell (D faces) 0 2)\<rparr>;
             faces = faces\<lparr>F := setCell (F faces) 1 2 (cell (D faces) 1 2)\<rparr>;
             faces = faces\<lparr>F := setCell (F faces) 2 2 (cell (D faces) 2 2)\<rparr>;
             faces = faces\<lparr>D := setCell (D faces) 0 2 (cell (B faces) 2 0)\<rparr>;
             faces = faces\<lparr>D := setCell (D faces) 1 2 (cell (B faces) 1 0)\<rparr>;
             faces = faces\<lparr>D := setCell (D faces) 2 2 (cell (B faces) 0 0)\<rparr>;
             faces = faces\<lparr>B := setCell (B faces) 0 0 (tempR ! 2)\<rparr>;
             faces = faces\<lparr>B := setCell (B faces) 1 0 (tempR ! 1)\<rparr>;
             faces = faces\<lparr>B := setCell (B faces) 2 0 (tempR ! 0)\<rparr>
         in faces)
      else if face = ''U'' then
        (let tempU = row (F faces) 0;
             faces = faces\<lparr>F := setRow (F faces) 0 (row (R faces) 0)\<rparr>;
             faces = faces\<lparr>R := setRow (R faces) 0 (row (B faces) 0)\<rparr>;
             faces = faces\<lparr>B := setRow (B faces) 0 (row (L faces) 0)\<rparr>;
             faces = faces\<lparr>L := setRow (L faces) 0 tempU\<rparr>
         in faces)
      else if face = ''F'' then
        (let tempF = [cell (U faces) 2 0, cell (U faces) 2 1, cell (U faces) 2 2];
             faces = faces\<lparr>U := setCell (U faces) 2 0 (cell (L faces) 2 2)\<rparr>;
             faces = faces\<lparr>U := setCell (U faces) 2 1 (cell (L faces) 1 2)\<rparr>;
             faces = faces\<lparr>U := setCell (U faces) 2 2 (cell (L faces) 0 2)\<rparr>;
             faces = faces\<lparr>L := setCell (L faces) 0 2 (cell (D faces) 0 0)\<rparr>;
             faces = faces\<lparr>L := setCell (L faces) 1 2 (cell (D faces) 0 1)\<rparr>;
             faces = faces\<lparr>L := setCell (L faces) 2 2 (cell (D faces) 0 2)\<rparr>;
             faces = faces\<lparr>D := setCell (D faces) 0 0 (cell (R faces) 2 0)\<rparr>;
             faces = faces\<lparr>D := setCell (D faces) 0 1 (cell (R faces) 1 0)\<rparr>;
             faces = faces\<lparr>D := setCell (D faces) 0 2 (cell (R faces) 0 0)\<rparr>;
             faces = faces\<lparr>R := setCell (R faces) 0 0 (tempF ! 0)\<rparr>;
             faces = faces\<lparr>R := setCell (R faces) 1 0 (tempF ! 1)\<rparr>;
             faces = faces\<lparr>R := setCell (R faces) 2 0 (tempF ! 2)\<rparr>
         in faces)
      else if face = ''L'' then
        (let tempL = [cell (U faces) 0 0, cell (U faces) 1 0, cell (U faces) 2 0];
             faces = faces\<lparr>U := setCell (U faces) 0 0 (cell (B faces) 2 2)\<rparr>;
             faces = faces\<lparr>U := setCell (U faces) 1 0 (cell (B faces) 1 2)\<rparr>;
             faces = faces\<lparr>U := setCell (U faces) 2 0 (cell (B faces) 0 2)\<rparr>;
             faces = faces\<lparr>B := setCell (B faces) 0 2 (cell (D faces) 2 0)\<rparr>;
             faces = faces\<lparr>B := setCell (B faces) 1 2 (cell (D faces) 1 0)\<rparr>;
             faces = faces\<lparr>B := setCell (B faces) 2 2 (cell (D faces) 0 0)\<rparr>;
             faces = faces\<lparr>D := setCell (D faces) 0 0 (cell (F faces) 0 0)\<rparr>;
             faces = faces\<lparr>D := setCell (D faces) 1 0 (cell (F faces) 1 0)\<rparr>;
             faces = faces\<lparr>D := setCell (D faces) 2 0 (cell (F faces) 2 0)\<rparr>;
             faces = faces\<lparr>F := setCell (F faces) 0 0 (tempL ! 0)\<rparr>;
             faces = faces\<lparr>F := setCell (F faces) 1 0 (tempL ! 1)\<rparr>;
             faces = faces\<lparr>F := setCell (F faces) 2 0 (tempL ! 2)\<rparr>
         in faces)
      else if face = ''D'' then
        (let tempD = row (F faces) 2;
             faces = faces\<lparr>F := setRow (F faces) 2 (row (L faces) 2)\<rparr>;
             faces = faces\<lparr>L := setRow (L faces) 2 (row (B faces) 2)\<rparr>;
             faces = faces\<lparr>B := setRow (B faces) 2 (row (R faces) 2)\<rparr>;
             faces = faces\<lparr>R := setRow (R faces) 2 tempD\<rparr>
         in faces)
      else if face = ''B'' then
        (let tempB = [cell (U faces) 0 0, cell (U faces) 0 1, cell (U faces) 0 2];
             faces = faces\<lparr>U := setCell (U faces) 0 0 (cell (R faces) 0 2)\<rparr>;
             faces = faces\<lparr>U := setCell (U faces) 0 1 (cell (R faces) 1 2)\<rparr>;
             faces = faces\<lparr>U := setCell (U faces) 0 2 (cell (R faces) 2 2)\<rparr>;
             faces = faces\<lparr>R := setCell (R faces) 0 2 (cell (D faces) 2 2)\<rparr>;
             faces = faces\<lparr>R := setCell (R faces) 1 2 (cell (D faces) 2 1)\<rparr>;
             faces = faces\<lparr>R := setCell (R faces) 2 2 (cell (D faces) 2 0)\<rparr>;
             faces = faces\<lparr>D := setCell (D faces) 2 2 (cell (L faces) 2 0)\<rparr>;
             faces = faces\<lparr>D := setCell (D faces) 2 1 (cell (L faces) 1 0)\<rparr>;
             faces = faces\<lparr>D := setCell (D faces) 2 0 (cell (L faces) 0 0)\<rparr>;
             faces = faces\<lparr>L := setCell (L faces) 0 0 (tempB ! 2)\<rparr>;
             faces = faces\<lparr>L := setCell (L faces) 1 0 (tempB ! 1)\<rparr>;
             faces = faces\<lparr>L := setCell (L faces) 2 0 (tempB ! 0)\<rparr>
         in faces)
      else faces)"

text \<open>
  \<^verbatim>\<open>rotateFace\<close> (lines 597-614): the turned face's own facelets are cycled in place
  (corners, then edges), then the adjacent strips. When \<^verbatim>\<open>state.faces[face]\<close> is
  \<^verbatim>\<open>undefined\<close> the first read \<^verbatim>\<open>faceMatrix[0][0]\<close> throws.
\<close>

definition rotateFace :: "CubeState \<Rightarrow> string \<Rightarrow> error + CubeState" where
  "rotateFace state face =
     (case faceOf state face of
        None \<Rightarrow> Inl TypeError
      | Some faceMatrix \<Rightarrow>
          (let temp = cell faceMatrix 0 0;
               faceMatrix = setCell faceMatrix 0 0 (cell faceMatrix 2 0);
               faceMatrix = setCell faceMatrix 2 0 (cell faceMatrix 2 2);
               faceMatrix = setCell faceMatrix 2 2 (cell faceMatrix 0 2);
               faceMatrix = setCell faceMatrix 0 2 temp;
               temp2 = cell faceMatrix 0 1;
               faceMatrix = setCell faceMatrix 0 1 (cell faceMatrix 1 0);
               faceMatrix = setCell faceMatrix 1 0 (cell faceMatrix 2 1);
               faceMatrix = setCell faceMatrix 2 1 (cell faceMatrix 1 2);
               faceMatrix = setCell faceMatrix 1 2 temp2
           in Inr (rotateAdjacentFaces (setFace state face faceMatrix) face)))"

text \<open>
  \<^verbatim>\<open>applyMove\<close> (lines 578-595): works on a deep copy, so the argument is untouched;
  \<^verbatim>\<open>move.charAt(0)\<close> is the first character (the empty string for an empty move),
  \<^verbatim>\<open>move.slice(1)\<close> the rest. The loop runs \<^verbatim>\<open>rotateFace\<close> once, twice or three times.
\<close>

definition prime :: string where
  "prime = [CHR 0x27]"

fun rotateTimes :: "nat \<Rightarrow> CubeState \<Rightarrow> string \<Rightarrow> error + CubeState" where
  "rotateTimes 0 state face = Inr state"
| "rotateTimes (Suc n) state face =
     bindE (rotateFace state face) (\<lambda>state'. rotateTimes n state' face)"

definition applyMove :: "CubeState \<Rightarrow> Move \<Rightarrow> error + CubeState" where
  "applyMove state move =
     (let face = take 1 move;
          modifier = drop 1 move;
          rotations = (if modifier = prime then 3 else if modifier = ''2'' then 2 else 1)
      in rotateTimes rotations state face)"

text \<open>Running a list of moves: the loop \<^verbatim>\<open>for (const m of ms) state = applyMove(state, m)\<close>.\<close>

fun applyMoves :: "CubeState \<Rightarrow> Move list \<Rightarrow> error + CubeState" where
  "applyMoves state [] = Inr state"
| "applyMoves state (m # ms) = bindE (applyMove state m) (\<lambda>state'. applyMoves state' ms)"

section \<open>Scrambler\<close>

text \<open>\<^verbatim>\<open>possibleMoves\<close> of \<^verbatim>\<open>scrambleCube\<close>, in the order of the source, and \<^verbatim>\<open>isOppositeMove\<close>.\<close>

definition possibleMoves :: "Move list" where
  "possibleMoves =
     [''R'', ''R'' @ prime, ''R2'', ''L'', ''L'' @ prime, ''L2'',
      ''U'', ''U'' @ prime, ''U2'', ''D'', ''D'' @ prime, ''D2'',
      ''F'', ''F'' @ prime, ''F2'', ''B'', ''B'' @ prime, ''B2'']"

definition isOppositeMove :: "Move \<Rightarrow> Move \<Rightarrow> bool" where
  "isOppositeMove move1 move2 =
     (let base1 = take 1 move1; base2 = take 1 move2 in base1 = base2)"

text \<open>
  \<^verbatim>\<open>scrambleCube\<close> (lines 535-570). The random source is an argument: the list of the
  successive values of \<^verbatim>\<open>Math.floor(Math.random() * possibleMoves.length)\<close>, each below
  18. The \<^verbatim>\<open>for\<close> loop and the \<^verbatim>\<open>do ... while\<close> inside it are one recursion on that
  list: a rejected draw is dropped and the same iteration draws again; an accepted one
  is pushed and applied. \<open>None\<close> means the given draws ran out before \<open>moves\<close> moves
  were accepted (the \<^verbatim>\<open>do ... while\<close> has no bound of its own).
\<close>

fun scrambleLoop ::
  "nat \<Rightarrow> nat list \<Rightarrow> Move list \<Rightarrow> CubeState \<Rightarrow> (error + CubeState \<times> Move list) option" where
  "scrambleLoop 0 draws scramble state = Some (Inr (state, scramble))"
| "scrambleLoop (Suc k) [] scramble state = None"
| "scrambleLoop (Suc k) (d # draws) scramble state =
     (let move = possibleMoves ! d in
      if scramble \<noteq> [] \<and> isOppositeMove (last scramble) move
      then scrambleLoop (Suc k) draws scramble state
      else (case applyMove state move of
              Inl e \<Rightarrow> Some (Inl e)
            | Inr state' \<Rightarrow> scrambleLoop k draws (scramble @ [move]) state'))"

definition scrambleCube :: "nat \<Rightarrow> nat list \<Rightarrow> (error + CubeState \<times> Move list) option" where
  "scrambleCube moves draws = scrambleLoop moves draws [] createSolvedCube"

section \<open>State and move history manager (src/lib/cube-state-manager.ts)\<close>

record CubeStateManager =
  currentState :: CubeState
  moveHistory :: "Move list"
  scrambleSequence :: "Move list"

text \<open>The constructor: a solved cube, empty history and scramble.\<close>

definition newManager :: CubeStateManager where
  "newManager = \<lparr>currentState = createSolvedCube, moveHistory = [], scrambleSequence = []\<rparr>"

text \<open>
  Methods return the outcome (a value or the exception) together with the manager as the
  call leaves it. In \<^verbatim>\<open>applyMove\<close> an exception of the engine leaves before the
  assignment and the push.
\<close>

definition Manager_applyMove ::
  "CubeStateManager \<Rightarrow> Move \<Rightarrow> (error + unit) \<times> CubeStateManager" where
  "Manager_applyMove this move =
     (case applyMove (currentState this) move of
        Inl e \<Rightarrow> (Inl e, this)
      | Inr state' \<Rightarrow>
          (Inr (), this\<lparr>currentState := state', moveHistory := moveHistory this @ [move]\<rparr>))"

definition getInverseMove :: "Move \<Rightarrow> Move" where
  "getInverseMove move =
     (let face = take 1 move;
          modifier = drop 1 move
      in if modifier = prime then face
         else if modifier = ''2'' then move
         else face @ prime)"

text \<open>
  \<^verbatim>\<open>undoLastMove\<close> (lines 70-81): the pop happens before the inverse is applied, so an
  exception of the engine leaves the history already popped.
\<close>

definition undoLastMove :: "CubeStateManager \<Rightarrow> (error + bool) \<times> CubeStateManager" where
  "undoLastMove this =
     (if length (moveHistory this) = 0 then (Inr False, this)
      else
        (let lastMove = last (moveHistory this);
             this = this\<lparr>moveHistory := butlast (moveHistory this)\<rparr>;
             inverseMove = getInverseMove lastMove
         in case applyMove (currentState this) inverseMove of
              Inl e \<Rightarrow> (Inl e, this)
            | Inr state' \<Rightarrow> (Inr True, this\<lparr>currentState := state'\<rparr>)))"

text \<open>
  \<^verbatim>\<open>JSON.stringify\<close> of a cube state: the object \<^verbatim>\<open>{"faces":{"U":[[...],...],...}}\<close>
  with the keys in insertion order. Every state a manager holds descends from
  \<^verbatim>\<open>createSolvedCube\<close> through JSON copies, so the keys come in the template's order,
  the order of the record.
\<close>

definition dq :: string where
  "dq = [CHR 0x22]"

fun colorName :: "Color \<Rightarrow> string" where
  "colorName white = ''white''"
| "colorName yellow = ''yellow''"
| "colorName red = ''red''"
| "colorName orange = ''orange''"
| "colorName blue = ''blue''"
| "colorName green = ''green''"

definition stringifyColor :: "Color \<Rightarrow> string" where
  "stringifyColor c = dq @ colorName c @ dq"

fun stringifyRow :: "Row3 \<Rightarrow> string" where
  "stringifyRow (Row3 a b c) =
     ''['' @ stringifyColor a @ '','' @ stringifyColor b @ '','' @ stringifyColor c @ '']''"

fun stringifyGrid :: "Grid \<Rightarrow> string" where
  "stringifyGrid (Grid r0 r1 r2) =
     ''['' @ stringifyRow r0 @ '','' @ stringifyRow r1 @ '','' @ stringifyRow r2 @ '']''"

definition stringify :: "CubeState \<Rightarrow> string" where
  "stringify state =
     ''{'' @ dq @ ''faces'' @ dq @ '':{''
       @ dq @ ''U'' @ dq @ '':'' @ stringifyGrid (U state) @ '',''
       @ dq @ ''D'' @ dq @ '':'' @ stringifyGrid (D state) @ '',''
       @ dq @ ''L'' @ dq @ '':'' @ stringifyGrid (L state) @ '',''
       @ dq @ ''R'' @ dq @ '':'' @ stringifyGrid (R state) @ '',''
       @ dq @ ''F'' @ dq @ '':'' @ stringifyGrid (F state) @ '',''
       @ dq @ ''B'' @ dq @ '':'' @ stringifyGrid (B state) @ ''}}''"

text \<open>\<^verbatim>\<open>CubeStateManager.isSolved\<close> (lines 52-56): the two JSON texts are compared.\<close>

definition Manager_isSolved :: "CubeStateManager \<Rightarrow> bool" where
  "Manager_isSolved this =
     (let solvedState = createSolvedCube
      in stringify (currentState this) = stringify solvedState)"

section \<open>The canvas component's own move engine (src/unnamed/part_000)\<close>

text \<open>
  The component keeps its own state: six arrays of nine one-letter colour strings,
  \<^verbatim>\<open>Array(9).fill('G')\<close> and so on, read and written at literal indices 0..8. The
  fields \<^verbatim>\<open>front\<close>, \<^verbatim>\<open>back\<close>, ... are written \<open>front_face\<close>, \<open>back_face\<close>, ...
  (\<open>top\<close> is a constant of HOL and \<open>back\<close> a keyword of Isabelle).
\<close>

datatype Squares = Squares string string string string string string string string string

fun sq :: "Squares \<Rightarrow> nat \<Rightarrow> string" where
  "sq (Squares a0 a1 a2 a3 a4 a5 a6 a7 a8) i =
     (if i = 0 then a0 else if i = 1 then a1 else if i = 2 then a2
      else if i = 3 then a3 else if i = 4 then a4 else if i = 5 then a5
      else if i = 6 then a6 else if i = 7 then a7 else a8)"

fun setSq :: "Squares \<Rightarrow> nat \<Rightarrow> string \<Rightarrow> Squares" where
  "setSq (Squares a0 a1 a2 a3 a4 a5 a6 a7 a8) i v =
     (if i = 0 then Squares v a1 a2 a3 a4 a5 a6 a7 a8
      else if i = 1 then Squares a0 v a2 a3 a4 a5 a6 a7 a8
      else if i = 2 then Squares a0 a1 v a3 a4 a5 a6 a7 a8
      else if i = 3 then Squares a0 a1 a2 v a4 a5 a6 a7 a8
      else if i = 4 then Squares a0 a1 a2 a3 v a5 a6 a7 a8
      else if i = 5 then Squares a0 a1 a2 a3 a4 v a6 a7 a8
      else if i = 6 then Squares a0 a1 a2 a3 a4 a5 v a7 a8
      else if i = 7 then Squares a0 a1 a2 a3 a4 a5 a6 v a8
      else Squares a0 a1 a2 a3 a4 a5 a6 a7 v)"

record CubeState3D =
  front_face :: Squares
  back_face :: Squares
  top_face :: Squares
  bottom_face :: Squares
  left_face :: Squares
  right_face :: Squares

definition fill9 :: "string \<Rightarrow> Squares" where
  "fill9 c = Squares c c c c c c c c c"

definition SOLVED_CUBE :: CubeState3D where
  "SOLVED_CUBE =
     \<lparr>front_face = fill9 ''G'', back_face = fill9 ''B'', top_face = fill9 ''W'',
      bottom_face = fill9 ''Y'', left_face = fill9 ''O'', right_face = fill9 ''R''\<rparr>"

definition rotateFaceClockwise :: "Squares \<Rightarrow> Squares" where
  "rotateFaceClockwise face =
     Squares (sq face 6) (sq face 3) (sq face 0) (sq face 7) (sq face 4) (sq face 1)
             (sq face 8) (sq face 5) (sq face 2)"

text \<open>
  \<^verbatim>\<open>applyMove\<close> of the component (lines 73-300): a switch on the whole move text with
  twelve cases and no default; any other text leaves the copy as it is.
\<close>

definition applyMove3D :: "Move \<Rightarrow> CubeState3D \<Rightarrow> CubeState3D" where
  "applyMove3D move state =
     (let newState = state in
      if move = ''R'' then
        (let newState = newState\<lparr>right_face := rotateFaceClockwise (right_face newState)\<rparr>;
             temp = [sq (front_face newState) 2, sq (front_face newState) 5, sq (front_face newState) 8];
             newState = newState\<lparr>front_face := setSq (front_face newState) 2 (sq (bottom_face newState) 2)\<rparr>;
             newState = newState\<lparr>front_face := setSq (front_face newState) 5 (sq (bottom_face newState) 5)\<rparr>;
             newState = newState\<lparr>front_face := setSq (front_face newState) 8 (sq (bottom_face newState) 8)\<rparr>;
             newState = newState\<lparr>bottom_face := setSq (bottom_face newState) 2 (sq (back_face newState) 6)\<rparr>;
             newState = newState\<lparr>bottom_face := setSq (bottom_face newState) 5 (sq (back_face newState) 3)\<rparr>;
             newState = newState\<lparr>bottom_face := setSq (bottom_face newState) 8 (sq (back_face newState) 0)\<rparr>;
             newState = newState\<lparr>back_face := setSq (back_face newState) 6 (sq (top_face newState) 2)\<rparr>;
             newState = newState\<lparr>back_face := setSq (back_face newState) 3 (sq (top_face newState) 5)\<rparr>;
             newState = newState\<lparr>back_face := setSq (back_face newState) 0 (sq (top_face newState) 8)\<rparr>;
             newState = newState\<lparr>top_face := setSq (top_face newState) 2 (temp ! 0)\<rparr>;
             newState = newState\<lparr>top_face := setSq (top_face newState) 5 (temp ! 1)\<rparr>;
             newState = newState\<lparr>top_face := setSq (top_face newState) 8 (temp ! 2)\<rparr>
         in newState)
      else if move = ''R'' @ prime then
        (let newState = newState\<lparr>right_face := (rotateFaceClockwise ^^ 3) (right_face newState)\<rparr>;
             temp = [sq (front_face newState) 2, sq (front_face newState) 5, sq (front_face newState) 8];
             newState = newState\<lparr>front_face := setSq (front_face newState) 2 (sq (top_face newState) 2)\<rparr>;
             newState = newState\<lparr>front_face := setSq (front_face newState) 5 (sq (top_face newState) 5)\<rparr>;
             newState = newState\<lparr>front_face := setSq (front_face newState) 8 (sq (top_face newState) 8)\<rparr>;
             newState = newState\<lparr>top_face := setSq (top_face newState) 2 (sq (back_face newState) 6)\<rparr>;
             newState = newState\<lparr>top_face := setSq (top_face newState) 5 (sq (back_face newState) 3)\<rparr>;
             newState = newState\<lparr>top_face := setSq (top_face newState) 8 (sq (back_face newState) 0)\<rparr>;
             newState = newState\<lparr>back_face := setSq (back_face newState) 6 (sq (bottom_face newState) 2)\<rparr>;
             newState = newState\<lparr>back_face := setSq (back_face newState) 3 (sq (bottom_face newState) 5)\<rparr>;
             newState = newState\<lparr>back_face := setSq (back_face newState) 0 (sq (bottom_face newState) 8)\<rparr>;
             newState = newState\<lparr>bottom_face := setSq (bottom_face newState) 2 (temp ! 0)\<rparr>;
             newState = newState\<lparr>bottom_face := setSq (bottom_face newState) 5 (temp ! 1)\<rparr>;
             newState = newState\<lparr>bottom_face := setSq (bottom_face newState) 8 (temp ! 2)\<rparr>
         in newState)
      else if move = ''L'' then
        (let newState = newState\<lparr>left_face := rotateFaceClockwise (left_face newState)\<rparr>;
             temp = [sq (front_face newState) 0, sq (front_face newState) 3, sq (front_face newState) 6];
             newState = newState\<lparr>front_face := setSq (front_face newState) 0 (sq (top_face newState) 0)\<rparr>;
             newState = newState\<lparr>front_face := setSq (front_face newState) 3 (sq (top_face newState) 3)\<rparr>;
             newState = newState\<lparr>front_face := setSq (front_face newState) 6 (sq (top_face newState) 6)\<rparr>;
             newState = newState\<lparr>top_face := setSq (top_face newState) 0 (sq (back_face newState) 8)\<rparr>;
             newState = newState\<lparr>top_face := setSq (top_face newState) 3 (sq (back_face newState) 5)\<rparr>;
             newState = newState\<lparr>top_face := setSq (top_face newState) 6 (sq (back_face newState) 2)\<rparr>;
             newState = newState\<lparr>back_face := setSq (back_face newState) 8 (sq (bottom_face newState) 0)\<rparr>;
             newState = newState\<lparr>back_face := setSq (back_face newState) 5 (sq (bottom_face newState) 3)\<rparr>;
             newState = newState\<lparr>back_face := setSq (back_face newState) 2 (sq (bottom_face newState) 6)\<rparr>;
             newState = newState\<lparr>bottom_face := setSq (bottom_face newState) 0 (temp ! 0)\<rparr>;
             newState = newState\<lparr>bottom_face := setSq (bottom_face newState) 3 (temp ! 1)\<rparr>;
             newState = newState\<lparr>bottom_face := setSq (bottom_face newState) 6 (temp ! 2)\<rparr>
         in newState)
      else if move = ''L'' @ prime then
        (let newState = newState\<lparr>left_face := (rotateFaceClockwise ^^ 3) (left_face newState)\<rparr>;
             temp = [sq (front_face newState) 0, sq (front_face newState) 3, sq (front_face newState) 6];
             newState = newState\<lparr>front_face := setSq (front_face newState) 0 (sq (bottom_face newState) 0)\<rparr>;
             newState = newState\<lparr>front_face := setSq (front_face newState) 3 (sq (bottom_face newState) 3)\<rparr>;
             newState = newState\<lparr>front_face := setSq (front_face newState) 6 (sq (bottom_face newState) 6)\<rparr>;
             newState = newState\<lparr>bottom_face := setSq (bottom_face newState) 0 (sq (back_face newState) 8)\<rparr>;
             newState = newState\<lparr>bottom_face := setSq (bottom_face newState) 3 (sq (back_face newState) 5)\<rparr>;
             newState = newState\<lparr>bottom_face := setSq (bottom_face newState) 6 (sq (back_face newState) 2)\<rparr>;
             newState = newState\<lparr>back_face := setSq (back_face newState) 8 (sq (top_face newState) 0)\<rparr>;
             newState = newState\<lparr>back_face := setSq (back_face newState) 5 (sq (top_face newState) 3)\<rparr>;
             newState = newState\<lparr>back_face := setSq (back_face newState) 2 (sq (top_face newState) 6)\<rparr>;
             newState = newState\<lparr>top_face := setSq (top_face newState) 0 (temp ! 0)\<rparr>;
             newState = newState\<lparr>top_face := setSq (top_face newState) 3 (temp ! 1)\<rparr>;
             newState = newState\<lparr>top_face := setSq (top_face newState) 6 (temp ! 2)\<rparr>
         in newState)
      else if move = ''U'' then
        (let newState = newState\<lparr>top_face := rotateFaceClockwise (top_face newState)\<rparr>;
             temp = [sq (front_face newState) 0, sq (front_face newState) 1, sq (front_face newState) 2];
             newState = newState\<lparr>front_face := setSq (front_face newState) 0 (sq (right_face newState) 0)\<rparr>;
             newState = newState\<lparr>front_face := setSq (front_face newState) 1 (sq (right_face newState) 1)\<rparr>;
             newState = newState\<lparr>front_face := setSq (front_face newState) 2 (sq (right_face newState) 2)\<rparr>;
             newState = newState\<lparr>right_face := setSq (right_face newState) 0 (sq (back_face newState) 0)\<rparr>;
             newState = newState\<lparr>right_face := setSq (right_face newState) 1 (sq (back_face newState) 1)\<rparr>;
             newState = newState\<lparr>right_face := setSq (right_face newState) 2 (sq (back_face newState) 2)\<rparr>;
             newState = newState\<lparr>back_face := setSq (back_face newState) 0 (sq (left_face newState) 0)\<rparr>;
             newState = newState\<lparr>back_face := setSq (back_face newState) 1 (sq (left_face newState) 1)\<rparr>;
             newState = newState\<lparr>back_face := setSq (back_face newState) 2 (sq (left_face newState) 2)\<rparr>;
             newState = newState\<lparr>left_face := setSq (left_face newState) 0 (temp ! 0)\<rparr>;
             newState = newState\<lparr>left_face := setSq (left_face newState) 1 (temp ! 1)\<rparr>;
             newState = newState\<lparr>left_face := setSq (left_face newState) 2 (temp ! 2)\<rparr>
         in newState)
      else if move = ''U'' @ prime then
        (let newState = newState\<lparr>top_face := (rotateFaceClockwise ^^ 3) (top_face newState)\<rparr>;
             temp = [sq (front_face newState) 0, sq (front_face newState) 1, sq (front_face newState) 2];
             newState = newState\<lparr>front_face := setSq (front_face newState) 0 (sq (left_face newState) 0)\<rparr>;
             newState = newState\<lparr>front_face := setSq (front_face newState) 1 (sq (left_face newState) 1)\<rparr>;
             newState = newState\<lparr>front_face := setSq (front_face newState) 2 (sq (left_face newState) 2)\<rparr>;
             newState = newState\<lparr>left_face := setSq (left_face newState) 0 (sq (back_face newState) 0)\<rparr>;
             newState = newState\<lparr>left_face := setSq (left_face newState) 1 (sq (back_face newState) 1)\<rparr>;
             newState = newState\<lparr>left_face := setSq (left_face newState) 2 (sq (back_face newState) 2)\<rparr>;
             newState = newState\<lparr>back_face := setSq (back_face newState) 0 (sq (right_face newState) 0)\<rparr>;
             newState = newState\<lparr>back_face := setSq (back_face newState) 1 (sq (right_face newState) 1)\<rparr>;
             newState = newState\<lparr>back_face := setSq (back_face newState) 2 (sq (right_face newState) 2)\<rparr>;
             newState = newState\<lparr>right_face := setSq (right_face newState) 0 (temp ! 0)\<rparr>;
             newState = newState\<lparr>right_face := setSq (right_face newState) 1 (temp ! 1)\<rparr>;
             newState = newState\<lparr>right_face := setSq (right_face newState) 2 (temp ! 2)\<rparr>
         in newState)
      else if move = ''D'' then
        (let newState = newState\<lparr>bottom_face := rotateFaceClockwise (bottom_face newState)\<rparr>;
             temp = [sq (front_face newState) 6, sq (front_face newState) 7, sq (front_face newState) 8];
             newState = newState\<lparr>front_face := setSq (front_face newState) 6 (sq (left_face newState) 6)\<rparr>;
             newState = newState\<lparr>front_face := setSq (front_face newState) 7 (sq (left_face newState) 7)\<rparr>;
             newState = newState\<lparr>front_face := setSq (front_face newState) 8 (sq (left_face newState) 8)\<rparr>;
             newState = newState\<lparr>left_face := setSq (left_face newState) 6 (sq (back_face newState) 6)\<rparr>;
             newState = newState\<lparr>left_face := setSq (left_face newState) 7 (sq (back_face newState) 7)\<rparr>;
             newState = newState\<lparr>left_face := setSq (left_face newState) 8 (sq (back_face newState) 8)\<rparr>;
             newState = newState\<lparr>back_face := setSq (back_face newState) 6 (sq (right_face newState) 6)\<rparr>;
             newState = newState\<lparr>back_face := setSq (back_face newState) 7 (sq (right_face newState) 7)\<rparr>;
             newState = newState\<lparr>back_face := setSq (back_face newState) 8 (sq (right_face newState) 8)\<rparr>;
             newState = newState\<lparr>right_face := setSq (right_face newState) 6 (temp ! 0)\<rparr>;
             newState = newState\<lparr>right_face := setSq (right_face newState) 7 (temp ! 1)\<rparr>;
             newState = newState\<lparr>right_face := setSq (right_face newState) 8 (temp ! 2)\<rparr>
         in newState)
      else if move = ''D'' @ prime then
        (let newState = newState\<lparr>bottom_face := (rotateFaceClockwise ^^ 3) (bottom_face newState)\<rparr>;
             temp = [sq (front_face newState) 6, sq (front_face newState) 7, sq (front_face newState) 8];
             newState = newState\<lparr>front_face := setSq (front_face newState) 6 (sq (right_face newState) 6)\<rparr>;
             newState = newState\<lparr>front_face := setSq (front_face newState) 7 (sq (right_face newState) 7)\<rparr>;
             newState = newState\<lparr>front_face := setSq (front_face newState) 8 (sq (right_face newState) 8)\<rparr>;
             newState = newState\<lparr>right_face := setSq (right_face newState) 6 (sq (back_face newState) 6)\<rparr>;
             newState = newState\<lparr>right_face := setSq (right_face newState) 7 (sq (back_face newState) 7)\<rparr>;
             newState = newState\<lparr>right_face := setSq (right_face newState) 8 (sq (back_face newState) 8)\<rparr>;
             newState = newState\<lparr>back_face := setSq (back_face newState) 6 (sq (left_face newState) 6)\<rparr>;
             newState = newState\<lparr>back_face := setSq (back_face newState) 7 (sq (left_face newState) 7)\<rparr>;
             newState = newState\<lparr>back_face := setSq (back_face newState) 8 (sq (left_face newState) 8)\<rparr>;
             newState = newState\<lparr>left_face := setSq (left_face newState) 6 (temp ! 0)\<rparr>;
             newState = newState\<lparr>left_face := setSq (left_face newState) 7 (temp ! 1)\<rparr>;
             newState = newState\<lparr>left_face := setSq (left_face newState) 8 (temp ! 2)\<rparr>
         in newState)
      else if move = ''F'' then
        (let newState = newState\<lparr>front_face := rotateFaceClockwise (front_face newState)\<rparr>;
             temp = [sq (top_face newState) 6, sq (top_face newState) 7, sq (top_face newState) 8];
             newState = newState\<lparr>top_face := setSq (top_face newState) 6 (sq (left_face newState) 8)\<rparr>;
             newState = newState\<lparr>top_face := setSq (top_face newState) 7 (sq (left_face newState) 5)\<rparr>;
             newState = newState\<lparr>top_face := setSq (top_face newState) 8 (sq (left_face newState) 2)\<rparr>;
             newState = newState\<lparr>left_face := setSq (left_face newState) 8 (sq (bottom_face newState) 2)\<rparr>;
             newState = newState\<lparr>left_face := setSq (left_face newState) 5 (sq (bottom_face newState) 1)\<rparr>;
             newState = newState\<lparr>left_face := setSq (left_face newState) 2 (sq (bottom_face newState) 0)\<rparr>;
             newState = newState\<lparr>bottom_face := setSq (bottom_face newState) 2 (sq (right_face newState) 0)\<rparr>;
             newState = newState\<lparr>bottom_face := setSq (bottom_face newState) 1 (sq (right_face newState) 3)\<rparr>;
             newState = newState\<lparr>bottom_face := setSq (bottom_face newState) 0 (sq (right_face newState) 6)\<rparr>;
             newState = newState\<lparr>right_face := setSq (right_face newState) 0 (temp ! 0)\<rparr>;
             newState = newState\<lparr>right_face := setSq (right_face newState) 3 (temp ! 1)\<rparr>;
             newState = newState\<lparr>right_face := setSq (right_face newState) 6 (temp ! 2)\<rparr>
         in newState)
      else if move = ''F'' @ prime then
        (let newState = newState\<lparr>front_face := (rotateFaceClockwise ^^ 3) (front_face newState)\<rparr>;
             temp = [sq (top_face newState) 6, sq (top_face newState) 7, sq (top_face newState) 8];
             newState = newState\<lparr>top_face := setSq (top_face newState) 6 (sq (right_face newState) 0)\<rparr>;
             newState = newState\<lparr>top_face := setSq (top_face newState) 7 (sq (right_face newState) 3)\<rparr>;
             newState = newState\<lparr>top_face := setSq (top_face newState) 8 (sq (right_face newState) 6)\<rparr>;
             newState = newState\<lparr>right_face := setSq (right_face newState) 0 (sq (bottom_face newState) 2)\<rparr>;
             newState = newState\<lparr>right_face := setSq (right_face newState) 3 (sq (bottom_face newState) 1)\<rparr>;
             newState = newState\<lparr>right_face := setSq (right_face newState) 6 (sq (bottom_face newState) 0)\<rparr>;
             newState = newState\<lparr>bottom_face := setSq (bottom_face newState) 2 (sq (left_face newState) 8)\<rparr>;
             newState = newState\<lparr>bottom_face := setSq (bottom_face newState) 1 (sq (left_face newState) 5)\<rparr>;
             newState = newState\<lparr>bottom_face := setSq (bottom_face newState) 0 (sq (left_face newState) 2)\<rparr>;
             newState = newState\<lparr>left_face := setSq (left_face newState) 8 (temp ! 0)\<rparr>;
             newState = newState\<lparr>left_face := setSq (left_face newState) 5 (temp ! 1)\<rparr>;
             newState = newState\<lparr>left_face := setSq (left_face newState) 2 (temp ! 2)\<rparr>
         in newState)
      else if move = ''B'' then
        (let newState = newState\<lparr>back_face := rotateFaceClockwise (back_face newState)\<rparr>;
             temp = [sq (top_face newState) 0, sq (top_face newState) 1, sq (top_face newState) 2];
             newState = newState\<lparr>top_face := setSq (top_face newState) 0 (sq (right_face newState) 2)\<rparr>;
             newState = newState\<lparr>top_face := setSq (top_face newState) 1 (sq (right_face newState) 5)\<rparr>;
             newState = newState\<lparr>top_face := setSq (top_face newState) 2 (sq (right_face newState) 8)\<rparr>;
             newState = newState\<lparr>right_face := setSq (right_face newState) 2 (sq (bottom_face newState) 8)\<rparr>;
             newState = newState\<lparr>right_face := setSq (right_face newState) 5 (sq (bottom_face newState) 7)\<rparr>;
             newState = newState\<lparr>right_face := setSq (right_face newState) 8 (sq (bottom_face newState) 6)\<rparr>;
             newState = newState\<lparr>bottom_face := setSq (bottom_face newState) 8 (sq (left_face newState) 6)\<rparr>;
             newState = newState\<lparr>bottom_face := setSq (bottom_face newState) 7 (sq (left_face newState) 3)\<rparr>;
             newState = newState\<lparr>bottom_face := setSq (bottom_face newState) 6 (sq (left_face newState) 0)\<rparr>;
             newState = newState\<lparr>left_face := setSq (left_face newState) 6 (temp ! 0)\<rparr>;
             newState = newState\<lparr>left_face := setSq (left_face newState) 3 (temp ! 1)\<rparr>;
             newState = newState\<lparr>left_face := setSq (left_face newState) 0 (temp ! 2)\<rparr>
         in newState)
      else if move = ''B'' @ prime then
        (let newState = newState\<lparr>back_face := (rotateFaceClockwise ^^ 3) (back_face newState)\<rparr>;
             temp = [sq (top_face newState) 0, sq (top_face newState) 1, sq (top_face newState) 2];
             newState = newState\<lparr>top_face := setSq (top_face newState) 0 (sq (left_face newState) 6)\<rparr>;
             newState = newState\<lparr>top_face := setSq (top_face newState) 1 (sq (left_face newState) 3)\<rparr>;
             newState = newState\<lparr>top_face := setSq (top_face newState) 2 (sq (left_face newState) 0)\<rparr>;
             newState = newState\<lparr>left_face := setSq (left_face newState) 6 (sq (bottom_face newState) 8)\<rparr>;
             newState = newState\<lparr>left_face := setSq (left_face newState) 3 (sq (bottom_face newState) 7)\<rparr>;
             newState = newState\<lparr>left_face := setSq (left_face newState) 0 (sq (bottom_face newState) 6)\<rparr>;
             newState = newState\<lparr>bottom_face := setSq (bottom_face newState) 8 (sq (right_face newState) 2)\<rparr>;
             newState = newState\<lparr>bottom_face := setSq (bottom_face newState) 7 (sq (right_face newState) 5)\<rparr>;
             newState = newState\<lparr>bottom_face := setSq (bottom_face newState) 6 (sq (right_face newState) 8)\<rparr>;
             newState = newState\<lparr>right_face := setSq (right_face newState) 2 (temp ! 0)\<rparr>;
             newState = newState\<lparr>right_face := setSq (right_face newState) 5 (temp ! 1)\<rparr>;
             newState = newState\<lparr>right_face := setSq (right_face newState) 8 (temp ! 2)\<rparr>
         in newState)
      else newState)"

section \<open>Solver (src/lib/cube-solver.ts, lines 706-1221)\<close>

record SolutionStep =
  move :: Move
  description :: string
  layer :: string

datatype Difficulty = Easy | Medium | Hard

text \<open>
  \<^verbatim>\<open>estimatedTime\<close> is a JavaScript double; the model computes it in exact rationals
  (no statement below reads it). \<^verbatim>\<open>solutionTime\<close> is the rounded clock difference,
  an input of the model.
\<close>

record SolutionResult =
  steps :: "SolutionStep list"
  totalMoves :: nat
  estimatedTime :: rat
  difficulty :: Difficulty
  algorithm :: string
  phase1Moves :: nat
  phase2Moves :: nat
  solutionTime :: nat

record CubeAnalysis =
  edgesOriented :: bool
  cornersPositioned :: bool
  edgesPermuted :: bool
  cornersOriented :: bool
  solvedFaces :: nat
  scrambleLevel :: rat

text \<open>\<^verbatim>\<open>Object.keys(state.faces)\<close>, as the faces themselves.\<close>

definition faceList :: "CubeState \<Rightarrow> Grid list" where
  "faceList state = [U state, D state, L state, R state, F state, B state]"

text \<open>The nine facelets of a face in the order of the loops \<^verbatim>\<open>i\<close>, \<^verbatim>\<open>j\<close>.\<close>

definition gridCells :: "Grid \<Rightarrow> Color list" where
  "gridCells faceColors = concat (map (\<lambda>i. map (\<lambda>j. cell faceColors i j) [0, 1, 2]) [0, 1, 2])"

text \<open>
  \<^verbatim>\<open>isSolved\<close> of the solver (lines 993-1007): every facelet of every face equals the
  centre of its own face.
\<close>

definition isSolved :: "CubeState \<Rightarrow> bool" where
  "isSolved state =
     list_all (\<lambda>faceColors.
        let centerColor = cell faceColors 1 1
        in list_all (\<lambda>c. c = centerColor) (gridCells faceColors)) (faceList state)"

definition checkEdgeOrientation :: "CubeState \<Rightarrow> bool" where
  "checkEdgeOrientation state =
     (let frontCenter = cell (F state) 1 1;
          topCenter = cell (U state) 1 1;
          frontTopEdge = cell (F state) 0 1;
          topFrontEdge = cell (U state) 2 1
      in (frontTopEdge = frontCenter \<and> topFrontEdge = topCenter) \<or>
         (frontTopEdge = topCenter \<and> topFrontEdge = frontCenter))"

text \<open>
  \<^verbatim>\<open>Array.prototype.sort\<close> without a comparator orders the colour names as strings;
  \<^verbatim>\<open>join('')\<close> concatenates them.
\<close>

definition checkCornerPositions :: "CubeState \<Rightarrow> bool" where
  "checkCornerPositions state =
     (let frontRightTopCorner = [cell (F state) 0 2, cell (R state) 0 0, cell (U state) 2 2];
          centers = [cell (F state) 1 1, cell (R state) 1 1, cell (U state) 1 1]
      in concat (sort (map colorName frontRightTopCorner)) = concat (sort (map colorName centers)))"

definition checkEdgePermutation :: "CubeState \<Rightarrow> bool" where
  "checkEdgePermutation state = isSolved state"

definition checkCornerOrientation :: "CubeState \<Rightarrow> bool" where
  "checkCornerOrientation state = isSolved state"

definition countSolvedFaces :: "CubeState \<Rightarrow> nat" where
  "countSolvedFaces state =
     length (filter (\<lambda>faceColors.
        let centerColor = cell faceColors 1 1
        in list_all (\<lambda>c. c = centerColor) (gridCells faceColors)) (faceList state))"

definition calculateScrambleLevel :: "CubeState \<Rightarrow> rat" where
  "calculateScrambleLevel state =
     (let totalPieces = 54;
          wrongPieces = sum_list (map (\<lambda>faceColors.
             let centerColor = cell faceColors 1 1
             in length (filter (\<lambda>c. c \<noteq> centerColor) (gridCells faceColors))) (faceList state))
      in of_nat wrongPieces / totalPieces)"

definition findMisorientedEdges :: "CubeState \<Rightarrow> string list" where
  "findMisorientedEdges state =
     (let badEdges = [];
          badEdges = (if cell (F state) 0 1 \<noteq> cell (F state) 1 1 \<or> cell (U state) 2 1 \<noteq> cell (U state) 1 1
                      then badEdges @ [''front-top''] else badEdges);
          badEdges = (if cell (R state) 0 1 \<noteq> cell (R state) 1 1 \<or> cell (U state) 1 2 \<noteq> cell (U state) 1 1
                      then badEdges @ [''right-top''] else badEdges);
          badEdges = (if cell (B state) 0 1 \<noteq> cell (B state) 1 1 \<or> cell (U state) 0 1 \<noteq> cell (U state) 1 1
                      then badEdges @ [''back-top''] else badEdges)
      in badEdges)"

definition arraysEqual :: "string list \<Rightarrow> string list \<Rightarrow> bool" where
  "arraysEqual a b = (length a = length b \<and> list_all (\<lambda>i. a ! i = b ! i) [0..<length a])"

definition findWrongPositionCorners :: "CubeState \<Rightarrow> string list" where
  "findWrongPositionCorners state =
     (let frontRightTop = [cell (F state) 0 2, cell (R state) 0 0, cell (U state) 2 2];
          expectedColors = [cell (F state) 1 1, cell (R state) 1 1, cell (U state) 1 1]
      in if \<not> arraysEqual (sort (map colorName frontRightTop)) (sort (map colorName expectedColors))
         then [''front-right-top''] else [])"

definition analyzeCubeState :: "CubeState \<Rightarrow> CubeAnalysis" where
  "analyzeCubeState state =
     \<lparr>edgesOriented = checkEdgeOrientation state,
      cornersPositioned = checkCornerPositions state,
      edgesPermuted = checkEdgePermutation state,
      cornersOriented = checkCornerOrientation state,
      solvedFaces = countSolvedFaces state,
      scrambleLevel = calculateScrambleLevel state\<rparr>"

definition orientEdgesReal :: "CubeState \<Rightarrow> SolutionStep list" where
  "orientEdgesReal state =
     (let badEdges = findMisorientedEdges state in
      if length badEdges > 0 then
        (if ''front-top'' \<in> set badEdges
         then [\<lparr>move = ''F R U R'' @ prime @ '' U'' @ prime @ '' F'' @ prime,
                description = ''Orient front-top edge'', layer = ''Edge Orientation''\<rparr>]
         else []) @
        (if ''right-top'' \<in> set badEdges
         then [\<lparr>move = ''R U R'' @ prime @ '' U'' @ prime,
                description = ''Orient right-top edge'', layer = ''Edge Orientation''\<rparr>]
         else []) @
        (if ''back-top'' \<in> set badEdges
         then [\<lparr>move = ''B U B'' @ prime @ '' U'' @ prime,
                description = ''Orient back-top edge'', layer = ''Edge Orientation''\<rparr>]
         else [])
      else [])"

definition positionCornersReal :: "CubeState \<Rightarrow> SolutionStep list" where
  "positionCornersReal state =
     (let wrongCorners = findWrongPositionCorners state in
      if length wrongCorners > 0
      then [\<lparr>move = ''R U R'' @ prime @ '' F'' @ prime @ '' R U R'' @ prime @ '' U'' @ prime
                     @ '' R'' @ prime @ '' F R2 U'' @ prime @ '' R'' @ prime,
             description = ''Position corners for Phase 2'', layer = ''Corner Positioning''\<rparr>]
      else [])"

definition solveCornerPermutationPhase2 :: "CubeState \<Rightarrow> SolutionStep list" where
  "solveCornerPermutationPhase2 state =
     [\<lparr>move = ''U R2 U'' @ prime @ '' R2 U'' @ prime,
       description = ''Permute corners (Phase 2)'', layer = ''Phase 2 Corners''\<rparr>]"

definition solveEdgePermutationPhase2 :: "CubeState \<Rightarrow> SolutionStep list" where
  "solveEdgePermutationPhase2 state =
     [\<lparr>move = ''U2 R2 U2 R2 U2'',
       description = ''Permute edges (Phase 2)'', layer = ''Phase 2 Edges''\<rparr>]"

definition kociembaPhase1Real :: "CubeState \<Rightarrow> CubeAnalysis \<Rightarrow> SolutionStep list" where
  "kociembaPhase1Real state analysis =
     (let steps = [];
          steps = (if \<not> edgesOriented analysis then steps @ orientEdgesReal state else steps);
          steps = (if \<not> cornersPositioned analysis then steps @ positionCornersReal state else steps);
          phase1Limited = take 12 steps
      in phase1Limited)"

definition kociembaPhase2Real :: "CubeState \<Rightarrow> CubeAnalysis \<Rightarrow> SolutionStep list" where
  "kociembaPhase2Real state analysis =
     (let steps = [];
          steps = (if \<not> cornersOriented analysis then steps @ solveCornerPermutationPhase2 state else steps);
          steps = (if \<not> edgesPermuted analysis then steps @ solveEdgePermutationPhase2 state else steps);
          phase2Limited = take 18 steps
      in phase2Limited)"

text \<open>
  \<^verbatim>\<open>kociembaAlgorithm\<close> (lines 740-778). Its result has no \<^verbatim>\<open>solutionTime\<close> yet; the
  model keeps the field at 0 until \<^verbatim>\<open>solveCube\<close> fills it.
\<close>

definition kociembaAlgorithm :: "CubeState \<Rightarrow> error + SolutionResult" where
  "kociembaAlgorithm state =
     (let cubeAnalysis = analyzeCubeState state;
          phase1Steps = kociembaPhase1Real state cubeAnalysis
      in bindE (applyMoves state (map move phase1Steps)) (\<lambda>intermediateState.
           let phase2Analysis = analyzeCubeState intermediateState;
               phase2Steps = kociembaPhase2Real intermediateState phase2Analysis;
               allSteps = phase1Steps @ phase2Steps;
               totalMoves = length allSteps;
               difficulty = (if totalMoves \<le> 20 then Easy else if totalMoves \<le> 30 then Medium else Hard)
           in Inr \<lparr>steps = allSteps,
                   totalMoves = totalMoves,
                   estimatedTime = max 8 (of_nat totalMoves * (4 / 10)),
                   difficulty = difficulty,
                   algorithm = ''Kociemba'',
                   phase1Moves = length phase1Steps,
                   phase2Moves = length phase2Steps,
                   solutionTime = 0\<rparr>))"

text \<open>
  \<^verbatim>\<open>solveCube\<close> (lines 706-733). \<open>solveCubeWith\<close> is \<^verbatim>\<open>solveCube\<close> with the search it
  calls in the second branch as an argument, so that a statement can say that a result
  does not depend on the search; \<open>solveCube\<close> passes \<^verbatim>\<open>kociembaAlgorithm\<close>, as the
  source does. \<open>elapsed\<close> is \<^verbatim>\<open>Math.round(performance.now() - startTime)\<close>.
\<close>

definition solveCubeWith ::
  "(CubeState \<Rightarrow> error + SolutionResult) \<Rightarrow> nat \<Rightarrow> CubeState \<Rightarrow> error + SolutionResult" where
  "solveCubeWith search elapsed state =
     (if isSolved state then
        Inr \<lparr>steps = [], totalMoves = 0, estimatedTime = 0, difficulty = Easy,
             algorithm = ''Kociemba'', phase1Moves = 0, phase2Moves = 0, solutionTime = 0\<rparr>
      else bindE (search state) (\<lambda>solution. Inr (solution\<lparr>solutionTime := elapsed\<rparr>)))"

definition solveCube :: "nat \<Rightarrow> CubeState \<Rightarrow> error + SolutionResult" where
  "solveCube elapsed state = solveCubeWith kociembaAlgorithm elapsed state"

text \<open>
  \<^verbatim>\<open>parseMoveSequence\<close>: \<^verbatim>\<open>sequence.split(" ")\<close>, keeping the pieces that are not
  blank. \<^verbatim>\<open>trim\<close> strips white space and line terminators. A \<open>char\<close> is a code
  unit below 256, and among those \<^verbatim>\<open>trim\<close> strips space, tab, line feed, vertical tab,
  form feed, carriage return and the no-break space U+00A0; the others it strips
  (U+1680, U+2000 to U+200A, U+2028, U+2029, U+202F, U+205F, U+3000, U+FEFF) are not
  values of \<open>char\<close>.
\<close>

fun split_space :: "string \<Rightarrow> string list" where
  "split_space [] = [[]]"
| "split_space (c # cs) =
     (if c = CHR '' '' then [] # split_space cs
      else (case split_space cs of [] \<Rightarrow> [[c]] | w # ws \<Rightarrow> (c # w) # ws))"

definition blank :: "char \<Rightarrow> bool" where
  "blank c = (c \<in> set [CHR '' '', CHR 0x09, CHR 0x0A, CHR 0x0B, CHR 0x0C, CHR 0x0D, CHR 0xA0])"

definition parseMoveSequence :: "string \<Rightarrow> Move list" where
  "parseMoveSequence sequence = filter (\<lambda>move. length (filter (\<lambda>c. \<not> blank c) move) > 0) (split_space sequence)"

section \<open>Notions the statements use\<close>

text \<open>
  \<^verbatim>\<open>type Face = "U" | "D" | "L" | "R" | "F" | "B"\<close>: the six base faces as move texts.
\<close>

definition Faces :: "string list" where
  "Faces = [''U'', ''D'', ''L'', ''R'', ''F'', ''B'']"

text \<open>The 54 facelets of a state, its six centres, and the number of facelets of a colour.\<close>

definition facelets :: "CubeState \<Rightarrow> Color list" where
  "facelets state = concat (map gridCells (faceList state))"

definition centers :: "CubeState \<Rightarrow> Color list" where
  "centers state = map (\<lambda>faceColors. cell faceColors 1 1) (faceList state)"

definition colorCount :: "CubeState \<Rightarrow> Color \<Rightarrow> nat" where
  "colorCount state c = count_list (facelets state) c"

text \<open>
  The base face of the last accepted move, as a list of at most one element: what the
  \<^verbatim>\<open>do ... while\<close> of the scrambler compares the next draw with.
\<close>

definition lastFace :: "Move list \<Rightarrow> string list" where
  "lastFace scramble = (if scramble = [] then [] else [take 1 (last scramble)])"

text \<open>A solved cube held with green on top: every face is uniform, the centres are not the template's.\<close>

definition greenOnTop :: CubeState where
  "greenOnTop =
     \<lparr>U = uniform green, D = uniform blue, L = uniform orange,
      R = uniform red, F = uniform yellow, B = uniform white\<rparr>"

text \<open>
  One run of \<^verbatim>\<open>scrambleCube(20)\<close>: the draws, the scramble they give
  (R U F L D B R' U' F' L' D' B' R2 U2 F2 L2 D2 B2 R U), the state it reaches, the five
  step texts \<^verbatim>\<open>solveCube\<close> returns for that state, and the states reached by replaying
  those texts through \<^verbatim>\<open>applyMove\<close>, whole and split into single moves.
\<close>

definition draws20 :: "nat list" where
  "draws20 = [0, 6, 12, 3, 9, 15, 1, 7, 13, 4, 10, 16, 2, 8, 14, 5, 11, 17, 0, 6]"

definition scramble20 :: "Move list" where
  "scramble20 =
     [''R'', ''U'', ''F'', ''L'', ''D'', ''B'',
      ''R'' @ prime, ''U'' @ prime, ''F'' @ prime, ''L'' @ prime, ''D'' @ prime, ''B'' @ prime,
      ''R2'', ''U2'', ''F2'', ''L2'', ''D2'', ''B2'', ''R'', ''U'']"

definition scrambled20 :: CubeState where
  "scrambled20 =
     \<lparr>U = Grid (Row3 red green red) (Row3 red white white) (Row3 white yellow yellow),
      D = Grid (Row3 green yellow blue) (Row3 orange yellow blue) (Row3 white blue orange),
      L = Grid (Row3 white green orange) (Row3 green orange orange) (Row3 blue green red),
      R = Grid (Row3 red red white) (Row3 yellow red blue) (Row3 yellow red green),
      F = Grid (Row3 green blue blue) (Row3 white green orange) (Row3 yellow red orange),
      B = Grid (Row3 green white blue) (Row3 orange blue yellow) (Row3 yellow white orange)\<rparr>"

definition solution20 :: "Move list" where
  "solution20 =
     [''F R U R'' @ prime @ '' U'' @ prime @ '' F'' @ prime,
      ''B U B'' @ prime @ '' U'' @ prime,
      ''R U R'' @ prime @ '' F'' @ prime @ '' R U R'' @ prime @ '' U'' @ prime
         @ '' R'' @ prime @ '' F R2 U'' @ prime @ '' R'' @ prime,
      ''U R2 U'' @ prime @ '' R2 U'' @ prime,
      ''U2 R2 U2 R2 U2'']"

definition replayed20 :: CubeState where
  "replayed20 =
     \<lparr>U = Grid (Row3 blue orange red) (Row3 blue white red) (Row3 green blue white),
      D = Grid (Row3 yellow yellow orange) (Row3 orange yellow white) (Row3 white green yellow),
      L = Grid (Row3 yellow yellow white) (Row3 green orange yellow) (Row3 red green blue),
      R = Grid (Row3 red green green) (Row3 red red red) (Row3 white blue orange),
      F = Grid (Row3 orange orange green) (Row3 red green blue) (Row3 orange orange blue),
      B = Grid (Row3 yellow white red) (Row3 white blue white) (Row3 green yellow blue)\<rparr>"

definition replayedTokens20 :: CubeState where
  "replayedTokens20 =
     \<lparr>U = Grid (Row3 red blue blue) (Row3 blue white blue) (Row3 blue white orange),
      D = Grid (Row3 green yellow red) (Row3 orange yellow white) (Row3 white blue green),
      L = Grid (Row3 green red yellow) (Row3 green orange orange) (Row3 blue green red),
      R = Grid (Row3 white orange white) (Row3 yellow red red) (Row3 yellow green yellow),
      F = Grid (Row3 orange red green) (Row3 white green orange) (Row3 yellow red blue),
      B = Grid (Row3 red yellow white) (Row3 green blue yellow) (Row3 orange white orange)\<rparr>"

section \<open>Evaluation set-up\<close>

text \<open>
  The engine is written as chains of \<open>let\<close>, each reading the state the previous one
  built. The simplifier is made to evaluate a bound value before it substitutes it
  (\<open>let_weak_cong\<close>, and the same for \<open>bindE\<close>): substituting first would copy
  every unevaluated state into each later read.
\<close>

lemma bindE_Inl [simp]: "bindE (Inl e) f = Inl e"
  by (simp add: bindE_def)

lemma bindE_Inr [simp]: "bindE (Inr v) f = f v"
  by (simp add: bindE_def)

lemma bindE_weak_cong [cong]: "x = y \<Longrightarrow> bindE x f = bindE y f"
  by simp

lemmas engine_defs = rotateFace_def rotateAdjacentFaces_def faceOf_def setFace_def
  cell_def setCell_def Let_def

lemmas eval_defs = applyMove_def engine_defs prime_def numeral_eq_Suc
  createSolvedCube_def SOLVED_STATE_def uniform_def

lemmas solver_defs = solveCube_def solveCubeWith_def isSolved_def faceList_def gridCells_def
  kociembaAlgorithm_def analyzeCubeState_def checkEdgeOrientation_def checkCornerPositions_def
  checkEdgePermutation_def checkCornerOrientation_def countSolvedFaces_def
  calculateScrambleLevel_def findMisorientedEdges_def findWrongPositionCorners_def
  arraysEqual_def orientEdgesReal_def positionCornersReal_def solveCornerPermutationPhase2_def
  solveEdgePermutationPhase2_def kociembaPhase1Real_def kociembaPhase2Real_def

section \<open>Every state has 54 facelets\<close>

lemma Grid_explicit: "\<exists>a b c d e f g h i. m = Grid (Row3 a b c) (Row3 d e f) (Row3 g h i)"
  by (cases m) (metis Row3.exhaust)

lemma CubeState_explicit:
  obtains u0 u1 u2 u3 u4 u5 u6 u7 u8 d0 d1 d2 d3 d4 d5 d6 d7 d8
          l0 l1 l2 l3 l4 l5 l6 l7 l8 r0 r1 r2 r3 r4 r5 r6 r7 r8
          f0 f1 f2 f3 f4 f5 f6 f7 f8 b0 b1 b2 b3 b4 b5 b6 b7 b8
  where "s = \<lparr>U = Grid (Row3 u0 u1 u2) (Row3 u3 u4 u5) (Row3 u6 u7 u8),
              D = Grid (Row3 d0 d1 d2) (Row3 d3 d4 d5) (Row3 d6 d7 d8),
              L = Grid (Row3 l0 l1 l2) (Row3 l3 l4 l5) (Row3 l6 l7 l8),
              R = Grid (Row3 r0 r1 r2) (Row3 r3 r4 r5) (Row3 r6 r7 r8),
              F = Grid (Row3 f0 f1 f2) (Row3 f3 f4 f5) (Row3 f6 f7 f8),
              B = Grid (Row3 b0 b1 b2) (Row3 b3 b4 b5) (Row3 b6 b7 b8)\<rparr>"
proof -
  obtain gu gd gl gr gf gb where s: "s = \<lparr>U = gu, D = gd, L = gl, R = gr, F = gf, B = gb\<rparr>"
    by (cases s) simp
  obtain u0 u1 u2 u3 u4 u5 u6 u7 u8
    where gu: "gu = Grid (Row3 u0 u1 u2) (Row3 u3 u4 u5) (Row3 u6 u7 u8)"
    using Grid_explicit [of gu] by (elim exE)
  obtain d0 d1 d2 d3 d4 d5 d6 d7 d8
    where gd: "gd = Grid (Row3 d0 d1 d2) (Row3 d3 d4 d5) (Row3 d6 d7 d8)"
    using Grid_explicit [of gd] by (elim exE)
  obtain l0 l1 l2 l3 l4 l5 l6 l7 l8
    where gl: "gl = Grid (Row3 l0 l1 l2) (Row3 l3 l4 l5) (Row3 l6 l7 l8)"
    using Grid_explicit [of gl] by (elim exE)
  obtain r0 r1 r2 r3 r4 r5 r6 r7 r8
    where gr: "gr = Grid (Row3 r0 r1 r2) (Row3 r3 r4 r5) (Row3 r6 r7 r8)"
    using Grid_explicit [of gr] by (elim exE)
  obtain f0 f1 f2 f3 f4 f5 f6 f7 f8
    where gf: "gf = Grid (Row3 f0 f1 f2) (Row3 f3 f4 f5) (Row3 f6 f7 f8)"
    using Grid_explicit [of gf] by (elim exE)
  obtain b0 b1 b2 b3 b4 b5 b6 b7 b8
    where gb: "gb = Grid (Row3 b0 b1 b2) (Row3 b3 b4 b5) (Row3 b6 b7 b8)"
    using Grid_explicit [of gb] by (elim exE)
  show thesis
    by (rule that [OF s [unfolded gu gd gl gr gf gb]])
qed

lemma facelets_explicit:
  "facelets \<lparr>U = Grid (Row3 u0 u1 u2) (Row3 u3 u4 u5) (Row3 u6 u7 u8),
             D = Grid (Row3 d0 d1 d2) (Row3 d3 d4 d5) (Row3 d6 d7 d8),
             L = Grid (Row3 l0 l1 l2) (Row3 l3 l4 l5) (Row3 l6 l7 l8),
             R = Grid (Row3 r0 r1 r2) (Row3 r3 r4 r5) (Row3 r6 r7 r8),
             F = Grid (Row3 f0 f1 f2) (Row3 f3 f4 f5) (Row3 f6 f7 f8),
             B = Grid (Row3 b0 b1 b2) (Row3 b3 b4 b5) (Row3 b6 b7 b8)\<rparr> =
   [u0, u1, u2, u3, u4, u5, u6, u7, u8, d0, d1, d2, d3, d4, d5, d6, d7, d8,
    l0, l1, l2, l3, l4, l5, l6, l7, l8, r0, r1, r2, r3, r4, r5, r6, r7, r8,
    f0, f1, f2, f3, f4, f5, f6, f7, f8, b0, b1, b2, b3, b4, b5, b6, b7, b8]"
  by (simp add: facelets_def faceList_def gridCells_def cell_def)

lemma centers_explicit:
  "centers \<lparr>U = Grid (Row3 u0 u1 u2) (Row3 u3 u4 u5) (Row3 u6 u7 u8),
            D = Grid (Row3 d0 d1 d2) (Row3 d3 d4 d5) (Row3 d6 d7 d8),
            L = Grid (Row3 l0 l1 l2) (Row3 l3 l4 l5) (Row3 l6 l7 l8),
            R = Grid (Row3 r0 r1 r2) (Row3 r3 r4 r5) (Row3 r6 r7 r8),
            F = Grid (Row3 f0 f1 f2) (Row3 f3 f4 f5) (Row3 f6 f7 f8),
            B = Grid (Row3 b0 b1 b2) (Row3 b3 b4 b5) (Row3 b6 b7 b8)\<rparr> =
   [u4, d4, l4, r4, f4, b4]"
  by (simp add: centers_def faceList_def cell_def)

section \<open>Quarter turns\<close>

text \<open>
  One \<^verbatim>\<open>rotateFace\<close> of a base face succeeds, permutes the 54 facelets and fixes the
  centres; four of them give the state back. Both are checked face by face on a state of
  54 unknowns.
\<close>

lemma Faces_cases:
  assumes "face \<in> set Faces"
  obtains "face = ''U''" | "face = ''D''" | "face = ''L''" | "face = ''R''" | "face = ''F''" | "face = ''B''"
  using assms by (auto simp: Faces_def)

lemma rotateFace_keeps:
  assumes f: "face \<in> set Faces"
  shows "\<exists>s'. rotateFace s face = Inr s' \<and> mset (facelets s') = mset (facelets s) \<and>
              centers s' = centers s"
proof (cases s rule: CubeState_explicit)
  case 1
  from f show ?thesis
    by (cases rule: Faces_cases)
       (simp_all add: 1 engine_defs facelets_explicit centers_explicit add_mset_commute
          cong: let_weak_cong)
qed

lemma rotateTimes_four:
  assumes f: "face \<in> set Faces"
  shows "rotateTimes 4 s face = Inr s"
proof (cases s rule: CubeState_explicit)
  case 1
  from f show ?thesis
    by (cases rule: Faces_cases)
       (simp_all add: 1 numeral_eq_Suc engine_defs cong: let_weak_cong)
qed

lemma rotateFace_bad_face: "face \<notin> set Faces \<Longrightarrow> rotateFace s face = Inl TypeError"
  by (simp add: Faces_def rotateFace_def faceOf_def)

lemma rotateTimes_add:
  "rotateTimes (a + b) s face = bindE (rotateTimes a s face) (\<lambda>s'. rotateTimes b s' face)"
proof (induction a arbitrary: s)
  case 0
  show ?case by simp
next
  case (Suc a)
  show ?case
    by (cases "rotateFace s face") (simp_all add: Suc.IH)
qed

lemma rotateTimes_two:
  "rotateTimes 2 a X = bindE (rotateTimes 1 a X) (\<lambda>b. rotateTimes 1 b X)"
proof -
  have e: "(2::nat) = 1 + 1" by simp
  show ?thesis by (subst e) (rule rotateTimes_add)
qed

lemma rotateTimes_three:
  "rotateTimes 3 s X = bindE (rotateTimes 1 s X) (\<lambda>a. rotateTimes 2 a X)"
proof -
  have e: "(3::nat) = 1 + 2" by simp
  show ?thesis by (subst e) (rule rotateTimes_add)
qed

lemma rotateTimes_keeps:
  assumes f: "face \<in> set Faces"
  shows "\<exists>s'. rotateTimes n s face = Inr s' \<and> mset (facelets s') = mset (facelets s) \<and>
              centers s' = centers s"
proof (induction n arbitrary: s)
  case 0
  show ?case by simp
next
  case (Suc n)
  obtain s1 where s1: "rotateFace s face = Inr s1" "mset (facelets s1) = mset (facelets s)"
      "centers s1 = centers s"
    using rotateFace_keeps [OF f, of s] by blast
  from Suc.IH [of s1] s1 show ?case by auto
qed

section \<open>Moves of the alphabet\<close>

lemma applyMove_rotateTimes:
  "applyMove s m =
     rotateTimes (if drop 1 m = prime then 3 else if drop 1 m = ''2'' then 2 else 1) s (take 1 m)"
  by (simp add: applyMove_def Let_def)

lemma possibleMoves_face: "m \<in> set possibleMoves \<Longrightarrow> take 1 m \<in> set Faces"
  by (auto simp: possibleMoves_def Faces_def)

lemma possibleMoves_shape:
  "m \<in> set possibleMoves \<Longrightarrow> \<exists>X \<in> set Faces. m = X \<or> m = X @ prime \<or> m = X @ ''2''"
  by (auto simp: possibleMoves_def Faces_def)

lemma applyMove_faces:
  assumes "X \<in> set Faces"
  shows "applyMove s X = rotateTimes 1 s X"
    and "applyMove s (X @ prime) = rotateTimes 3 s X"
    and "applyMove s (X @ ''2'') = rotateTimes 2 s X"
  using assms by (auto simp: Faces_def applyMove_def prime_def)

lemma getInverseMove_faces:
  assumes "X \<in> set Faces"
  shows "getInverseMove X = X @ prime"
    and "getInverseMove (X @ prime) = X"
    and "getInverseMove (X @ ''2'') = X @ ''2''"
  using assms by (auto simp: Faces_def getInverseMove_def prime_def)

lemma applyMove_keeps:
  assumes m: "m \<in> set possibleMoves"
  shows "\<exists>s'. applyMove s m = Inr s' \<and> mset (facelets s') = mset (facelets s) \<and>
              centers s' = centers s"
  unfolding applyMove_rotateTimes
  by (rule rotateTimes_keeps [OF possibleMoves_face [OF m]])

lemma roundtrip_face:
  assumes X: "X \<in> set Faces" and m: "m = X \<or> m = X @ prime \<or> m = X @ ''2''"
  shows "bindE (applyMove s m) (\<lambda>s'. applyMove s' (getInverseMove m)) = Inr s"
proof -
  have 13: "bindE (rotateTimes 1 s X) (\<lambda>s'. rotateTimes 3 s' X) = Inr s"
    using rotateTimes_add [of 1 3 s X] rotateTimes_four [OF X, of s] by simp
  have 31: "bindE (rotateTimes 3 s X) (\<lambda>s'. rotateTimes 1 s' X) = Inr s"
    using rotateTimes_add [of 3 1 s X] rotateTimes_four [OF X, of s] by simp
  have 22: "bindE (rotateTimes 2 s X) (\<lambda>s'. rotateTimes 2 s' X) = Inr s"
    using rotateTimes_add [of 2 2 s X] rotateTimes_four [OF X, of s] by simp
  from m show ?thesis
    by (elim disjE) (simp_all only: applyMove_faces [OF X] getInverseMove_faces [OF X] 13 31 22)
qed

lemma roundtrip:
  assumes "m \<in> set possibleMoves"
  shows "bindE (applyMove s m) (\<lambda>s'. applyMove s' (getInverseMove m)) = Inr s"
  using possibleMoves_shape [OF assms] roundtrip_face by blast

section \<open>The scrambler's loop\<close>

lemma scrambleLoop_sound:
  assumes "\<forall>d \<in> set ds. d < length possibleMoves"
      and "distinct_adj (map (take 1) scramble)"
      and "scrambleLoop k ds scramble state = Some r"
  shows "\<exists>state' new. r = Inr (state', scramble @ new) \<and> length new = k \<and>
           set new \<subseteq> set possibleMoves \<and> distinct_adj (map (take 1) (scramble @ new)) \<and>
           applyMoves state new = Inr state'"
  using assms
proof (induction k ds scramble state rule: scrambleLoop.induct)
  case (1 draws scramble state)
  then show ?case by simp
next
  case (2 k scramble state)
  then show ?case by simp
next
  case (3 k d draws scramble state)
  let ?move = "possibleMoves ! d"
  from "3.prems"(1) have mv: "?move \<in> set possibleMoves" by simp
  from "3.prems"(1) have dr: "\<forall>d \<in> set draws. d < length possibleMoves" by simp
  show ?case
  proof (cases "scramble \<noteq> [] \<and> isOppositeMove (last scramble) ?move")
    case True
    with "3.prems" have "scrambleLoop (Suc k) draws scramble state = Some r"
      by (simp add: Let_def)
    from "3.IH"(1) [OF refl True dr "3.prems"(2) this] show ?thesis .
  next
    case False
    obtain state' where st: "applyMove state ?move = Inr state'"
      using applyMove_keeps [OF mv] by blast
    from False "3.prems"(3) st
    have run: "scrambleLoop k draws (scramble @ [?move]) state' = Some r"
      by (auto simp: Let_def split: if_splits)
    from False "3.prems"(2)
    have da: "distinct_adj (map (take 1) (scramble @ [?move]))"
      by (auto simp: distinct_adj_append_iff isOppositeMove_def last_map)
    from "3.IH"(2) [OF refl False st dr da run]
    obtain state'' new where new: "r = Inr (state'', (scramble @ [?move]) @ new)" "length new = k"
        "set new \<subseteq> set possibleMoves" "distinct_adj (map (take 1) ((scramble @ [?move]) @ new))"
        "applyMoves state' new = Inr state''"
      by blast
    show ?thesis
    proof (intro exI conjI)
      show "r = Inr (state'', scramble @ (?move # new))" using new(1) by simp
      show "length (?move # new) = Suc k" using new(2) by simp
      show "set (?move # new) \<subseteq> set possibleMoves" using new(3) mv by simp
      show "distinct_adj (map (take 1) (scramble @ ?move # new))" using new(4) by simp
      show "applyMoves state (?move # new) = Inr state''" using new(5) st by simp
    qed
  qed
qed

text \<open>
  The loop runs out of draws exactly when the draws hold fewer than \<open>k\<close> acceptable ones:
  a draw is rejected when its face repeats the face before it, which is what
  \<open>remdups_adj\<close> removes.
\<close>

lemma scrambleLoop_None_iff:
  assumes "\<forall>d \<in> set ds. d < length possibleMoves"
  shows "scrambleLoop k ds scramble state = None \<longleftrightarrow>
         length (remdups_adj (lastFace scramble @ map (\<lambda>d. take 1 (possibleMoves ! d)) ds))
           < k + length (lastFace scramble)"
  using assms
proof (induction k ds scramble state rule: scrambleLoop.induct)
  case (1 draws scramble state)
  then show ?case by (auto simp: lastFace_def)
next
  case (2 k scramble state)
  then show ?case by (simp add: lastFace_def)
next
  case (3 k d draws scramble state)
  let ?move = "possibleMoves ! d"
  from "3.prems"(1) have mv: "?move \<in> set possibleMoves" by simp
  from "3.prems"(1) have dr: "\<forall>d \<in> set draws. d < length possibleMoves" by simp
  show ?case
  proof (cases "scramble \<noteq> [] \<and> isOppositeMove (last scramble) ?move")
    case True
    from "3.IH"(1) [OF refl True dr] True show ?thesis
      by (simp add: lastFace_def isOppositeMove_def Let_def)
  next
    case False
    obtain state' where st: "applyMove state ?move = Inr state'"
      using applyMove_keeps [OF mv] by blast
    from "3.IH"(2) [OF refl False st dr] False st show ?thesis
      by (auto simp: lastFace_def isOppositeMove_def Let_def)
  qed
qed

section \<open>JSON texts of states\<close>

text \<open>Two states with the same JSON text are the same state: colour names are quoted.\<close>

lemma stringifyColor_inj [simp]:
  "stringifyColor a @ x = stringifyColor b @ y \<longleftrightarrow> a = b \<and> x = y"
  by (cases a; cases b) (simp_all add: stringifyColor_def dq_def)

lemma stringifyRow_inj [simp]:
  "stringifyRow r @ x = stringifyRow r' @ y \<longleftrightarrow> r = r' \<and> x = y"
  by (cases r; cases r') auto

lemma stringifyGrid_inj [simp]:
  "stringifyGrid g @ x = stringifyGrid g' @ y \<longleftrightarrow> g = g' \<and> x = y"
  by (cases g; cases g') auto

lemma stringifyGrid_eq [simp]: "stringifyGrid g = stringifyGrid g' \<longleftrightarrow> g = g'"
  using stringifyGrid_inj [of g "[]" g' "[]"] by simp

lemma stringify_inj: "stringify s = stringify t \<longleftrightarrow> s = t"
  by (cases s; cases t) (auto simp: stringify_def)

lemma isSolved_iff_uniform:
  "isSolved s \<longleftrightarrow>
     (\<exists>cu cd cl cr cf cb. s = \<lparr>U = uniform cu, D = uniform cd, L = uniform cl,
                              R = uniform cr, F = uniform cf, B = uniform cb\<rparr>)"
  by (cases s rule: CubeState_explicit)
     (auto simp: isSolved_def faceList_def gridCells_def cell_def uniform_def)

lemma isSolved_SOLVED_STATE: "isSolved SOLVED_STATE"
  by (simp add: isSolved_def SOLVED_STATE_def uniform_def faceList_def gridCells_def cell_def)

section \<open>The component's turns\<close>

lemma Squares_explicit: "\<exists>a0 a1 a2 a3 a4 a5 a6 a7 a8. q = Squares a0 a1 a2 a3 a4 a5 a6 a7 a8"
  by (cases q) simp

lemma CubeState3D_explicit:
  obtains f0 f1 f2 f3 f4 f5 f6 f7 f8 b0 b1 b2 b3 b4 b5 b6 b7 b8
          t0 t1 t2 t3 t4 t5 t6 t7 t8 d0 d1 d2 d3 d4 d5 d6 d7 d8
          l0 l1 l2 l3 l4 l5 l6 l7 l8 r0 r1 r2 r3 r4 r5 r6 r7 r8
  where "c = \<lparr>front_face = Squares f0 f1 f2 f3 f4 f5 f6 f7 f8,
              back_face = Squares b0 b1 b2 b3 b4 b5 b6 b7 b8,
              top_face = Squares t0 t1 t2 t3 t4 t5 t6 t7 t8,
              bottom_face = Squares d0 d1 d2 d3 d4 d5 d6 d7 d8,
              left_face = Squares l0 l1 l2 l3 l4 l5 l6 l7 l8,
              right_face = Squares r0 r1 r2 r3 r4 r5 r6 r7 r8\<rparr>"
proof -
  obtain qf qb qt qd ql qr
    where c: "c = \<lparr>front_face = qf, back_face = qb, top_face = qt,
                    bottom_face = qd, left_face = ql, right_face = qr\<rparr>"
    by (cases c) simp
  obtain f0 f1 f2 f3 f4 f5 f6 f7 f8 where qf: "qf = Squares f0 f1 f2 f3 f4 f5 f6 f7 f8"
    using Squares_explicit [of qf] by (elim exE)
  obtain b0 b1 b2 b3 b4 b5 b6 b7 b8 where qb: "qb = Squares b0 b1 b2 b3 b4 b5 b6 b7 b8"
    using Squares_explicit [of qb] by (elim exE)
  obtain t0 t1 t2 t3 t4 t5 t6 t7 t8 where qt: "qt = Squares t0 t1 t2 t3 t4 t5 t6 t7 t8"
    using Squares_explicit [of qt] by (elim exE)
  obtain d0 d1 d2 d3 d4 d5 d6 d7 d8 where qd: "qd = Squares d0 d1 d2 d3 d4 d5 d6 d7 d8"
    using Squares_explicit [of qd] by (elim exE)
  obtain l0 l1 l2 l3 l4 l5 l6 l7 l8 where ql: "ql = Squares l0 l1 l2 l3 l4 l5 l6 l7 l8"
    using Squares_explicit [of ql] by (elim exE)
  obtain r0 r1 r2 r3 r4 r5 r6 r7 r8 where qr: "qr = Squares r0 r1 r2 r3 r4 r5 r6 r7 r8"
    using Squares_explicit [of qr] by (elim exE)
  show thesis
    by (rule that [OF c [unfolded qf qb qt qd ql qr]])
qed

lemma applyMove3D_prime:
  assumes X: "X \<in> set Faces"
  shows "applyMove3D (X @ prime) c = applyMove3D X (applyMove3D X (applyMove3D X c))"
proof (cases c rule: CubeState3D_explicit)
  case 1
  from X show ?thesis
    by (cases rule: Faces_cases)
       (simp_all add: 1 applyMove3D_def rotateFaceClockwise_def prime_def numeral_eq_Suc Let_def
          cong: let_weak_cong)
qed

text \<open>
  The component's switch has cases for the twelve quarter turns only: any other text,
  a double move included, gives the state back unchanged.
\<close>

lemma applyMove3D_other:
  assumes "mv \<notin> set (filter (\<lambda>m. drop 1 m \<noteq> ''2'') possibleMoves)"
  shows "applyMove3D mv c = c"
  using assms by (simp add: applyMove3D_def possibleMoves_def prime_def)

section \<open>The claims\<close>

text \<open>
  Claim C1 (code evaluated at a failing input). The claim: for every state produced by
  \<^verbatim>\<open>scrambleCube(20)\<close>, \<^verbatim>\<open>solveCube\<close> returns steps whose moves, replayed in order from
  that state through \<^verbatim>\<open>applyMove\<close>, give the solved state, in at most 30 moves.
  The run \<open>draws20\<close> of \<^verbatim>\<open>scrambleCube(20)\<close> gives the state \<open>scrambled20\<close>. On it
  \<^verbatim>\<open>solveCube\<close> returns five steps whose move texts are fixed algorithm strings
  (\<open>solution20\<close>), 33 single moves in all. Replaying the five texts through
  \<^verbatim>\<open>applyMove\<close> (which reads only the first character of each and turns that face once)
  ends in \<open>replayed20\<close>; replaying the 33 single moves ends in \<open>replayedTokens20\<close>.
  Neither is the solved state.
\<close>

theorem solveCube_scramble20_not_solved:
  "scrambleCube 20 draws20 = Some (Inr (scrambled20, scramble20)) \<and>
   bindE (solveCube 0 scrambled20) (\<lambda>r. Inr (map move (steps r))) = Inr solution20 \<and>
   bindE (solveCube 0 scrambled20) (\<lambda>r. applyMoves scrambled20 (map move (steps r))) = Inr replayed20 \<and>
   replayed20 \<noteq> SOLVED_STATE \<and>
   length (concat (map parseMoveSequence solution20)) = 33 \<and>
   applyMoves scrambled20 (concat (map parseMoveSequence solution20)) = Inr replayedTokens20 \<and>
   replayedTokens20 \<noteq> SOLVED_STATE"
proof (intro conjI)
  show "scrambleCube 20 draws20 = Some (Inr (scrambled20, scramble20))"
    by (simp add: scrambleCube_def draws20_def scramble20_def scrambled20_def possibleMoves_def
          isOppositeMove_def eval_defs cong: let_weak_cong)
  show "bindE (solveCube 0 scrambled20) (\<lambda>r. Inr (map move (steps r))) = Inr solution20"
    by (simp add: solver_defs solution20_def scrambled20_def eval_defs cong: let_weak_cong)
  show "bindE (solveCube 0 scrambled20) (\<lambda>r. applyMoves scrambled20 (map move (steps r)))
          = Inr replayed20"
    by (simp add: solver_defs scrambled20_def replayed20_def eval_defs cong: let_weak_cong)
  show "replayed20 \<noteq> SOLVED_STATE"
    by (simp add: replayed20_def SOLVED_STATE_def uniform_def)
  show "length (concat (map parseMoveSequence solution20)) = 33"
    by (simp add: solution20_def parseMoveSequence_def blank_def prime_def)
  show "applyMoves scrambled20 (concat (map parseMoveSequence solution20)) = Inr replayedTokens20"
    by (simp add: solution20_def scrambled20_def replayedTokens20_def parseMoveSequence_def
          blank_def eval_defs cong: let_weak_cong)
  show "replayedTokens20 \<noteq> SOLVED_STATE"
    by (simp add: replayedTokens20_def SOLVED_STATE_def uniform_def)
qed

text \<open>
  Claim C2. For every cube state and each of the 18 moves of the alphabet, \<^verbatim>\<open>applyMove\<close>
  returns a state whose six centre facelets (row 1, column 1 of each face) are those of
  the argument and in which every colour occurs as often, over all 54 facelets, as in the
  argument.
\<close>

theorem applyMove_keeps_centers_and_counts:
  assumes "m \<in> set possibleMoves"
  shows "\<exists>s'. applyMove s m = Inr s' \<and> centers s' = centers s \<and>
              (\<forall>c. colorCount s' c = colorCount s c)"
proof -
  obtain s' where s': "applyMove s m = Inr s'" "mset (facelets s') = mset (facelets s)"
      "centers s' = centers s"
    using applyMove_keeps [OF assms, of s] by blast
  have "colorCount s' c = colorCount s c" for c
    using arg_cong [OF s'(2), of "\<lambda>M. count M c"] by (simp add: colorCount_def count_mset)
  with s' show ?thesis by simp
qed

theorem applyMove_keeps_centers_and_counts_witness:
  "''R'' \<in> set possibleMoves \<and>
   (\<exists>s'. applyMove SOLVED_STATE ''R'' = Inr s' \<and> centers s' = centers SOLVED_STATE \<and>
      (\<forall>c. colorCount s' c = colorCount SOLVED_STATE c))"
  using applyMove_keeps_centers_and_counts [of "''R''" SOLVED_STATE]
  by (simp add: possibleMoves_def)

text \<open>
  Claim C3. For every cube state \<open>s\<close> and every move \<open>m\<close> of the 18-move alphabet,
  applying \<open>m\<close> and then \<^verbatim>\<open>getInverseMove(m)\<close> gives \<open>s\<close> back; \<^verbatim>\<open>getInverseMove\<close> maps
  \<open>X\<close> to \<open>X'\<close>, \<open>X'\<close> to \<open>X\<close> and \<open>X2\<close> to itself.
\<close>

theorem applyMove_inverse_roundtrip:
  assumes "m \<in> set possibleMoves"
  shows "bindE (applyMove s m) (\<lambda>s'. applyMove s' (getInverseMove m)) = Inr s \<and>
         (\<forall>X \<in> set Faces. getInverseMove X = X @ prime \<and> getInverseMove (X @ prime) = X \<and>
                           getInverseMove (X @ ''2'') = X @ ''2'')"
  using roundtrip [OF assms] getInverseMove_faces by blast

theorem applyMove_inverse_roundtrip_witness:
  "''F2'' \<in> set possibleMoves \<and>
   bindE (applyMove scrambled20 ''F2'') (\<lambda>s'. applyMove s' (getInverseMove ''F2'')) = Inr scrambled20 \<and>
   getInverseMove ''F2'' = ''F2''"
  using applyMove_inverse_roundtrip [of "''F2''" scrambled20]
  by (simp add: possibleMoves_def Faces_def)

text \<open>
  Claim C4 (corrected). The claim: for every state, both solved checks are true exactly
  when the state is deep-equal to the solved template. The solver's check is true of the
  solved cube held with green on top, which is not the template.
\<close>

theorem isSolved_not_template_counterexample:
  "isSolved greenOnTop \<and> greenOnTop \<noteq> SOLVED_STATE"
  by (simp add: greenOnTop_def isSolved_def SOLVED_STATE_def uniform_def faceList_def
        gridCells_def cell_def)

text \<open>
  Claim C4 as amended. \<^verbatim>\<open>CubeStateManager.isSolved()\<close> is true exactly when the state the
  manager holds equals the solved template. The solver's \<^verbatim>\<open>isSolved\<close>, which gates
  \<^verbatim>\<open>solveCube\<close>, is true exactly when each face is of one colour; among the states with
  the template's six centres that is equality with the template.
\<close>

theorem isSolved_checks:
  "(Manager_isSolved this \<longleftrightarrow> currentState this = SOLVED_STATE) \<and>
   (isSolved s \<longleftrightarrow>
      (\<exists>cu cd cl cr cf cb. s = \<lparr>U = uniform cu, D = uniform cd, L = uniform cl,
                               R = uniform cr, F = uniform cf, B = uniform cb\<rparr>)) \<and>
   (centers s = centers SOLVED_STATE \<longrightarrow> (isSolved s \<longleftrightarrow> s = SOLVED_STATE))"
proof (intro conjI impI)
  show "Manager_isSolved this \<longleftrightarrow> currentState this = SOLVED_STATE"
    by (simp add: Manager_isSolved_def createSolvedCube_def stringify_inj)
  show "isSolved s \<longleftrightarrow>
      (\<exists>cu cd cl cr cf cb. s = \<lparr>U = uniform cu, D = uniform cd, L = uniform cl,
                               R = uniform cr, F = uniform cf, B = uniform cb\<rparr>)"
    by (rule isSolved_iff_uniform)
  assume c: "centers s = centers SOLVED_STATE"
  show "isSolved s \<longleftrightarrow> s = SOLVED_STATE"
  proof
    assume "isSolved s"
    then obtain cu cd cl cr cf cb
      where s: "s = \<lparr>U = uniform cu, D = uniform cd, L = uniform cl,
                     R = uniform cr, F = uniform cf, B = uniform cb\<rparr>"
      unfolding isSolved_iff_uniform by blast
    from c show "s = SOLVED_STATE"
      by (simp add: s centers_def faceList_def cell_def uniform_def SOLVED_STATE_def)
  next
    assume "s = SOLVED_STATE"
    then show "isSolved s" by (simp add: isSolved_SOLVED_STATE)
  qed
qed

theorem isSolved_checks_witness:
  "centers scrambled20 = centers SOLVED_STATE \<and> \<not> isSolved scrambled20 \<and>
   scrambled20 \<noteq> SOLVED_STATE \<and>
   Manager_isSolved newManager"
  using isSolved_checks [of newManager scrambled20]
  by (simp add: newManager_def createSolvedCube_def scrambled20_def SOLVED_STATE_def uniform_def
        centers_def faceList_def cell_def)

text \<open>
  Claim C5 (corrected). The claim: a move text whose face character is not one of
  U, D, L, R, F, B, or whose suffix is not empty, \<open>'\<close> or \<open>2\<close>, makes \<^verbatim>\<open>applyMove\<close> fail.
  The text \<open>R3\<close> has a suffix outside the three; \<^verbatim>\<open>applyMove\<close> returns the state of the
  clockwise turn \<open>R\<close>.
\<close>

theorem applyMove_bad_suffix_counterexample:
  "take 1 ''R3'' \<in> set Faces \<and> drop 1 ''R3'' \<notin> {[], prime, ''2''} \<and>
   applyMove SOLVED_STATE ''R3'' = applyMove SOLVED_STATE ''R'' \<and>
   applyMove SOLVED_STATE ''R3'' =
     Inr \<lparr>U = Grid (Row3 white white green) (Row3 white white green) (Row3 white white green),
          D = Grid (Row3 yellow yellow blue) (Row3 yellow yellow blue) (Row3 yellow yellow blue),
          L = uniform orange, R = uniform red,
          F = Grid (Row3 green green yellow) (Row3 green green yellow) (Row3 green green yellow),
          B = Grid (Row3 white blue blue) (Row3 white blue blue) (Row3 white blue blue)\<rparr>"
  by (simp add: applyMove_def SOLVED_STATE_def uniform_def engine_defs Faces_def prime_def
        cong: let_weak_cong)

text \<open>
  Claim C5 as amended. For every state and every move text: when the first character is
  not one of U, D, L, R, F, B (the empty text included), \<^verbatim>\<open>applyMove\<close> returns no state, it
  throws the TypeError of reading a face that does not exist; when the first character
  is a face and the rest is neither \<open>'\<close> nor \<open>2\<close>, \<^verbatim>\<open>applyMove\<close> returns the state of the
  clockwise quarter turn of that face.
\<close>

theorem applyMove_unrecognised_text:
  "(take 1 tok \<notin> set Faces \<longrightarrow> applyMove s tok = Inl TypeError) \<and>
   (take 1 tok \<in> set Faces \<and> drop 1 tok \<noteq> prime \<and> drop 1 tok \<noteq> ''2'' \<longrightarrow>
      applyMove s tok = applyMove s (take 1 tok) \<and> (\<exists>s'. applyMove s tok = Inr s'))"
proof (intro conjI impI)
  assume "take 1 tok \<notin> set Faces"
  then show "applyMove s tok = Inl TypeError"
    by (simp add: applyMove_rotateTimes numeral_eq_Suc rotateFace_bad_face)
next
  assume a: "take 1 tok \<in> set Faces \<and> drop 1 tok \<noteq> prime \<and> drop 1 tok \<noteq> ''2''"
  then have one: "applyMove s tok = rotateTimes 1 s (take 1 tok)"
    by (simp add: applyMove_rotateTimes)
  from a have "applyMove s (take 1 tok) = rotateTimes 1 s (take 1 tok)"
    by (auto simp: applyMove_rotateTimes Faces_def prime_def)
  with one show "applyMove s tok = applyMove s (take 1 tok)" by simp
  from a rotateTimes_keeps [of "take 1 tok" 1 s] one
  show "\<exists>s'. applyMove s tok = Inr s'" by auto
qed

theorem applyMove_unrecognised_text_witness:
  "take 1 ''X'' \<notin> set Faces \<and> applyMove SOLVED_STATE ''X'' = Inl TypeError \<and>
   take 1 ''R3'' \<in> set Faces \<and> drop 1 ''R3'' \<noteq> prime \<and> drop 1 ''R3'' \<noteq> ''2'' \<and>
   applyMove SOLVED_STATE ''R3'' = applyMove SOLVED_STATE (take 1 ''R3'')"
  using applyMove_unrecognised_text [of "''X''" SOLVED_STATE]
        applyMove_unrecognised_text [of "''R3''" SOLVED_STATE]
  by (simp add: Faces_def prime_def)

text \<open>
  Claim C6. For every \<open>n\<close>, \<^verbatim>\<open>scrambleCube(n)\<close> returns a list of exactly \<open>n\<close> moves of the
  18-move alphabet in which no move has the base face of the move before it, with the
  state obtained by applying the list to the solved state; \<^verbatim>\<open>scrambleCube(0)\<close> returns the
  solved state and the empty list. The random draws are an argument of the model, each
  an index into \<^verbatim>\<open>possibleMoves\<close>: the call returns unless the draws hold fewer than \<open>n\<close>
  acceptable ones (faces with immediate repetitions removed), it never throws, and what
  it returns is as the claim says.
\<close>

theorem scrambleCube_result:
  assumes "\<forall>d \<in> set draws. d < length possibleMoves"
  shows "(scrambleCube n draws = None \<longleftrightarrow>
            length (remdups_adj (map (\<lambda>d. take 1 (possibleMoves ! d)) draws)) < n) \<and>
         (\<forall>r. scrambleCube n draws = Some r \<longrightarrow>
            (\<exists>state scramble. r = Inr (state, scramble) \<and> length scramble = n \<and>
               set scramble \<subseteq> set possibleMoves \<and> distinct_adj (map (take 1) scramble) \<and>
               applyMoves createSolvedCube scramble = Inr state)) \<and>
         scrambleCube 0 draws = Some (Inr (createSolvedCube, []))"
proof (intro conjI allI impI)
  show "scrambleCube n draws = None \<longleftrightarrow>
          length (remdups_adj (map (\<lambda>d. take 1 (possibleMoves ! d)) draws)) < n"
    using scrambleLoop_None_iff [OF assms, of n "[]" createSolvedCube]
    by (simp add: scrambleCube_def lastFace_def)
next
  fix r assume "scrambleCube n draws = Some r"
  then show "\<exists>state scramble. r = Inr (state, scramble) \<and> length scramble = n \<and>
               set scramble \<subseteq> set possibleMoves \<and> distinct_adj (map (take 1) scramble) \<and>
               applyMoves createSolvedCube scramble = Inr state"
    using scrambleLoop_sound [OF assms, of "[]" n createSolvedCube r]
    by (simp add: scrambleCube_def)
next
  show "scrambleCube 0 draws = Some (Inr (createSolvedCube, []))"
    by (simp add: scrambleCube_def)
qed

theorem scrambleCube_result_witness:
  "list_all (\<lambda>d. d < length possibleMoves) [0, 1, 6, 12] \<and>
   length (remdups_adj (map (\<lambda>d. take 1 (possibleMoves ! d)) [0, 1, 6, 12])) = 3 \<and>
   (\<exists>state scramble. scrambleCube 3 [0, 1, 6, 12] = Some (Inr (state, scramble)) \<and>
      length scramble = 3 \<and> set scramble \<subseteq> set possibleMoves \<and>
      distinct_adj (map (take 1) scramble) \<and>
      applyMoves createSolvedCube scramble = Inr state)"
proof -
  have h: "\<forall>d \<in> set [0, 1, 6, 12 :: nat]. d < length possibleMoves"
    by (simp add: possibleMoves_def)
  have n: "length (remdups_adj (map (\<lambda>d. take 1 (possibleMoves ! d)) [0, 1, 6, 12])) = 3"
    by (simp add: possibleMoves_def prime_def)
  from n scrambleCube_result [OF h, of 3]
  obtain r where "scrambleCube 3 [0, 1, 6, 12] = Some r" by auto
  with scrambleCube_result [OF h, of 3] h n show ?thesis by (simp add: list_all_iff)
qed

text \<open>
  Claim C7. \<^verbatim>\<open>solveCube\<close> on the solved state returns a solution with no steps and
  \<^verbatim>\<open>totalMoves\<close> 0, and it does so whatever the search is: the search is not called.
\<close>

theorem solveCube_solved_is_empty:
  "\<exists>r. solveCube elapsed SOLVED_STATE = Inr r \<and> steps r = [] \<and> totalMoves r = 0 \<and>
       (\<forall>search. solveCubeWith search elapsed SOLVED_STATE = Inr r)"
  by (simp add: solveCube_def solveCubeWith_def isSolved_SOLVED_STATE)

theorem solveCube_solved_is_empty_witness:
  "\<exists>r. solveCube 0 createSolvedCube = Inr r \<and> steps r = [] \<and> totalMoves r = 0 \<and>
       solveCubeWith (\<lambda>s. Inl TypeError) 0 createSolvedCube = Inr r"
  using solveCube_solved_is_empty [of 0] by (auto simp: createSolvedCube_def)

text \<open>
  Claim C8. From any manager state, \<^verbatim>\<open>applyMove("R")\<close> logs the move, and
  \<^verbatim>\<open>undoLastMove()\<close> after it returns true and leaves the manager as it was before the
  move: the cube state, the move history (empty if it was empty) and the scramble
  sequence. The inverse move is applied and not logged.
\<close>

theorem undo_after_R_restores:
  "\<exists>this'. Manager_applyMove this ''R'' = (Inr (), this') \<and>
           moveHistory this' = moveHistory this @ [''R''] \<and>
           undoLastMove this' = (Inr True, this)"
proof -
  have R: "''R'' \<in> set possibleMoves" by (simp add: possibleMoves_def)
  obtain s' where s': "applyMove (currentState this) ''R'' = Inr s'"
    using applyMove_keeps [OF R, of "currentState this"] by blast
  have inv: "getInverseMove ''R'' = ''R'' @ prime"
    by (simp add: getInverseMove_def prime_def)
  have "applyMove s' (''R'' @ prime) = Inr (currentState this)"
    using roundtrip [OF R, of "currentState this"] by (simp add: s' inv)
  then have undo: "applyMove s' (CHR ''R'' # prime) = Inr (currentState this)"
    by simp
  show ?thesis
    by (simp add: Manager_applyMove_def undoLastMove_def s' inv undo Let_def)
qed

theorem undo_after_R_restores_witness:
  "\<exists>this'. Manager_applyMove newManager ''R'' = (Inr (), this') \<and>
           moveHistory this' = [''R''] \<and>
           undoLastMove this' = (Inr True, newManager) \<and> moveHistory newManager = []"
  using undo_after_R_restores [of newManager] by (simp add: newManager_def)

text \<open>
  Claim C9. For every cube state and every base face \<open>X\<close>: in the solver's rotation
  count, \<open>X'\<close> gives the state of three \<open>X\<close> and \<open>X2\<close> the state of two \<open>X\<close>; in the
  component, whose \<open>X'\<close> cases are written out as inverse permutations, \<open>X'\<close> gives the
  state of three \<open>X\<close>. The results are equal as states, facelet for facelet.
\<close>

theorem prime_is_three_turns_double_is_two:
  assumes X: "X \<in> set Faces"
  shows "applyMove s (X @ prime) =
           bindE (applyMove s X) (\<lambda>a. bindE (applyMove a X) (\<lambda>b. applyMove b X)) \<and>
         applyMove s (X @ ''2'') = bindE (applyMove s X) (\<lambda>a. applyMove a X) \<and>
         applyMove3D (X @ prime) c = applyMove3D X (applyMove3D X (applyMove3D X c))"
proof (intro conjI)
  show "applyMove s (X @ prime) =
          bindE (applyMove s X) (\<lambda>a. bindE (applyMove a X) (\<lambda>b. applyMove b X))"
    by (simp only: applyMove_faces [OF X] rotateTimes_three rotateTimes_two)
  show "applyMove s (X @ ''2'') = bindE (applyMove s X) (\<lambda>a. applyMove a X)"
    by (simp only: applyMove_faces [OF X] rotateTimes_two)
  show "applyMove3D (X @ prime) c = applyMove3D X (applyMove3D X (applyMove3D X c))"
    by (rule applyMove3D_prime [OF X])
qed

theorem prime_is_three_turns_double_is_two_witness:
  "''F'' \<in> set Faces \<and>
   applyMove scrambled20 (''F'' @ prime) =
     bindE (applyMove scrambled20 ''F'') (\<lambda>a. bindE (applyMove a ''F'') (\<lambda>b. applyMove b ''F'')) \<and>
   applyMove scrambled20 (''F'' @ ''2'') = bindE (applyMove scrambled20 ''F'') (\<lambda>a. applyMove a ''F'') \<and>
   applyMove3D (''F'' @ prime) SOLVED_CUBE =
     applyMove3D ''F'' (applyMove3D ''F'' (applyMove3D ''F'' SOLVED_CUBE))"
  using prime_is_three_turns_double_is_two [of "''F''" scrambled20 SOLVED_CUBE]
  by (simp add: Faces_def)

text \<open>
  Claim C10. On a manager whose move history is empty, \<^verbatim>\<open>undoLastMove()\<close> returns false
  and changes neither the cube state nor the history.
\<close>

theorem undo_on_empty_history:
  assumes "moveHistory this = []"
  shows "undoLastMove this = (Inr False, this)"
  using assms by (simp add: undoLastMove_def)

theorem undo_on_empty_history_witness:
  "moveHistory newManager = [] \<and> undoLastMove newManager = (Inr False, newManager)"
  using undo_on_empty_history [of newManager] by (simp add: newManager_def)

end
